theory Spec2Isabelle
  imports Main "HOL-Library.AList"
begin

section \<open>Python values, exceptions and the outside world\<close>

text \<open>
  The mail manager (\<^verbatim>\<open>mail_manager.py\<close>) reads the process environment and a token
  file, talks to IMAP and SMTP servers and to the identity provider's token endpoint.
  Everything outside the script is a field of the record \<open>world\<close>: the environment, the
  token file, and one oracle per library call that the script makes. Each oracle sees
  the events that happened so far, so a server may answer the second request
  differently from the first. Every call the script makes to the outside is appended to
  \<open>trace\<close>, with its outcome.

  Strings are byte strings (UTF-8); \<^verbatim>\<open>str.encode()\<close> and \<^verbatim>\<open>bytes.decode()\<close> are the
  identity on them.
\<close>

subsection \<open>Values\<close>

text \<open>
  What \<^verbatim>\<open>json.load\<close> returns, and the dictionaries the script builds itself. \<open>JNull\<close> is
  Python's \<^verbatim>\<open>None\<close>. A dict is an association list in insertion order. Numbers are
  integers (a float behaves like a non-zero integer in every test made here).
\<close>

datatype json =
    JNull
  | JBool bool
  | JNum int
  | JStr string
  | JArr "json list"
  | JObj "(string \<times> json) list"

text \<open>Truthiness: what \<^verbatim>\<open>if x:\<close> and \<^verbatim>\<open>not x\<close> test.\<close>

fun truthy :: "json \<Rightarrow> bool" where
  "truthy JNull = False"
| "truthy (JBool b) = b"
| "truthy (JNum n) = (n \<noteq> 0)"
| "truthy (JStr s) = (s \<noteq> [])"
| "truthy (JArr xs) = (xs \<noteq> [])"
| "truthy (JObj kvs) = (kvs \<noteq> [])"

text \<open>A value that is a string or \<^verbatim>\<open>None\<close> (an environment lookup, an error message).\<close>

fun truthy_str :: "string option \<Rightarrow> bool" where
  "truthy_str None = False"
| "truthy_str (Some s) = (s \<noteq> [])"

fun type_name :: "json \<Rightarrow> string" where
  "type_name JNull = ''NoneType''"
| "type_name (JBool b) = ''bool''"
| "type_name (JNum n) = ''int''"
| "type_name (JStr s) = ''str''"
| "type_name (JArr xs) = ''list''"
| "type_name (JObj kvs) = ''dict''"

subsection \<open>Exceptions\<close>

text \<open>
  The exception classes the script names in an \<^verbatim>\<open>except\<close> clause, each with the text
  \<^verbatim>\<open>str(e)\<close> gives; \<open>PyException\<close> is any other subclass of \<^verbatim>\<open>Exception\<close>
  (\<^verbatim>\<open>TypeError\<close>, \<^verbatim>\<open>KeyError\<close>, \<^verbatim>\<open>OSError\<close>, ...). \<open>IMAP4_error\<close> is
  \<^verbatim>\<open>imaplib.IMAP4.error\<close> with its subclasses, \<open>SMTPException\<close> every
  \<^verbatim>\<open>smtplib.SMTPException\<close> that is not an \<^verbatim>\<open>SMTPAuthenticationError\<close>. An
  \<^verbatim>\<open>HTTPError\<close> also carries its body, which \<^verbatim>\<open>e.read().decode()\<close> returns or fails
  to decode.
\<close>

datatype http_body = Body string | Undecodable string

datatype exn =
    IMAP4_error string
  | SMTPAuthenticationError string
  | SMTPException string
  | HTTPError string http_body
  | FileNotFoundError string
  | JSONDecodeError string
  | PyException string

fun str_exn :: "exn \<Rightarrow> string" where
  "str_exn (IMAP4_error m) = m"
| "str_exn (SMTPAuthenticationError m) = m"
| "str_exn (SMTPException m) = m"
| "str_exn (HTTPError m b) = m"
| "str_exn (FileNotFoundError m) = m"
| "str_exn (JSONDecodeError m) = m"
| "str_exn (PyException m) = m"

subsection \<open>Operations of Python on values\<close>

definition quoted :: "string \<Rightarrow> string" where
  "quoted s = [CHR 0x27] @ s @ [CHR 0x27]"

fun is_substring :: "string \<Rightarrow> string \<Rightarrow> bool" where
  "is_substring k [] = (k = [])"
| "is_substring k (c # cs) = (take (length k) (c # cs) = k \<or> is_substring k cs)"

text \<open>\<^verbatim>\<open>k in x\<close>: a key of a dict, an element of a list, a substring of a string.\<close>

fun py_in :: "string \<Rightarrow> json \<Rightarrow> exn + bool" where
  "py_in k (JObj kvs) = Inr (k \<in> fst ` set kvs)"
| "py_in k (JArr xs) = Inr (JStr k \<in> set xs)"
| "py_in k (JStr s) = Inr (is_substring k s)"
| "py_in k v = Inl (PyException (''argument of type '' @ quoted (type_name v) @ '' is not iterable''))"

text \<open>\<^verbatim>\<open>x[k]\<close> for a string \<open>k\<close>.\<close>

fun getitem :: "json \<Rightarrow> string \<Rightarrow> exn + json" where
  "getitem (JObj kvs) k =
     (case map_of kvs k of
        Some v \<Rightarrow> Inr v
      | None \<Rightarrow> Inl (PyException (quoted k)))"
| "getitem (JArr xs) k = Inl (PyException ''list indices must be integers or slices, not str'')"
| "getitem (JStr s) k = Inl (PyException (''string indices must be integers, not '' @ quoted ''str''))"
| "getitem v k = Inl (PyException (quoted (type_name v) @ '' object is not subscriptable''))"

text \<open>\<^verbatim>\<open>x[k] = v\<close>: the dict after the assignment.\<close>

fun setitem :: "json \<Rightarrow> string \<Rightarrow> json \<Rightarrow> exn + json" where
  "setitem (JObj kvs) k v = Inr (JObj (AList.update k v kvs))"
| "setitem (JArr xs) k v = Inl (PyException ''list indices must be integers or slices, not str'')"
| "setitem x k v =
     Inl (PyException (quoted (type_name x) @ '' object does not support item assignment''))"


text \<open>Decimal digits, for \<^verbatim>\<open>str\<close> of an integer and for timestamps.\<close>

definition digit :: "nat \<Rightarrow> char" where
  "digit d = ''0123456789'' ! (d mod 10)"

fun show_nat :: "nat \<Rightarrow> string" where
  "show_nat n = (if n < 10 then [digit n] else show_nat (n div 10) @ [digit n])"

declare show_nat.simps [simp del]

definition show_int :: "int \<Rightarrow> string" where
  "show_int i = (if i < 0 then ''-'' @ show_nat (nat (- i)) else show_nat (nat i))"

subsection \<open>The clock\<close>

text \<open>\<^verbatim>\<open>datetime.now()\<close>, and \<^verbatim>\<open>isoformat()\<close> of it.\<close>

record datetime =
  year :: nat
  month :: nat
  day :: nat
  hour :: nat
  minute :: nat
  second :: nat
  microsecond :: nat

definition pad2 :: "nat \<Rightarrow> string" where
  "pad2 n = [digit (n div 10), digit n]"

definition pad4 :: "nat \<Rightarrow> string" where
  "pad4 n = [digit (n div 1000), digit (n div 100), digit (n div 10), digit n]"

definition pad6 :: "nat \<Rightarrow> string" where
  "pad6 n = [digit (n div 100000), digit (n div 10000), digit (n div 1000),
             digit (n div 100), digit (n div 10), digit n]"

definition isoformat :: "datetime \<Rightarrow> string" where
  "isoformat d =
     pad4 (year d) @ ''-'' @ pad2 (month d) @ ''-'' @ pad2 (day d) @ ''T'' @
     pad2 (hour d) @ '':'' @ pad2 (minute d) @ '':'' @ pad2 (second d) @
     (if microsecond d = 0 then [] else ''.'' @ pad6 (microsecond d))"

subsection \<open>Base64\<close>

text \<open>\<^verbatim>\<open>base64.b64encode\<close> (RFC 4648, with padding).\<close>

definition b64_char :: "nat \<Rightarrow> char" where
  "b64_char n =
     ''ABCDEFGHIJKLMNOPQRSTUVWXYZabcdefghijklmnopqrstuvwxyz0123456789+/'' ! (n mod 64)"

fun b64encode :: "string \<Rightarrow> string" where
  "b64encode [] = []"
| "b64encode [a] =
     (let n = of_char a * 65536
      in [b64_char (n div 262144), b64_char (n div 4096), CHR ''='', CHR ''=''])"
| "b64encode [a, b] =
     (let n = of_char a * 65536 + of_char b * 256
      in [b64_char (n div 262144), b64_char (n div 4096), b64_char (n div 64), CHR ''=''])"
| "b64encode (a # b # c # rest) =
     (let n = of_char a * 65536 + of_char b * 256 + of_char c
      in [b64_char (n div 262144), b64_char (n div 4096), b64_char (n div 64), b64_char n]
         @ b64encode rest)"

subsection \<open>The world\<close>

datatype role = Read | Send

text \<open>
  The form posted to the token endpoint: client identifier, tenant, and the
  authorization code or the refresh token (the value found in the token file).
\<close>

datatype token_request =
    Authorization_code_grant string string string
  | Refresh_token_grant string string json

text \<open>
  \<open>Connect r tls host\<close>: opening the connection (\<^verbatim>\<open>IMAP4_SSL\<close>, \<^verbatim>\<open>SMTP_SSL\<close> when
  \<open>tls\<close>, else \<^verbatim>\<open>SMTP\<close> with its \<^verbatim>\<open>ehlo\<close>/\<^verbatim>\<open>starttls\<close> exchange).
  \<open>Authenticate r s\<close>: one XOAUTH2 authentication with the string \<open>s\<close>
  (\<^verbatim>\<open>mail.authenticate\<close>, \<^verbatim>\<open>server.auth\<close>). \<open>Login r user password\<close>: \<^verbatim>\<open>login\<close>.
  \<open>TokenPost\<close>: one request to the token endpoint, with the parsed response or the
  exception raised by \<^verbatim>\<open>urlopen\<close>, \<^verbatim>\<open>read\<close>, \<^verbatim>\<open>decode\<close> or \<^verbatim>\<open>json.loads\<close>.
  \<open>TokenFileWrite\<close>: the token file was written with this content.
\<close>

datatype event =
    Connect role bool string "exn option"
  | Authenticate role string "exn option"
  | Login role "string option" "string option" "exn option"
  | SendMessage "exn option"
  | TokenPost token_request "exn + json"
  | TokenFileWrite json

text \<open>The message to send: recipient, subject, body, and the \<^verbatim>\<open>In-Reply-To\<close> id.\<close>

type_synonym message = "string \<times> string \<times> string \<times> string option"

text \<open>
  \<open>token_file\<close> is what \<^verbatim>\<open>open(TOKEN_FILE)\<close> followed by \<^verbatim>\<open>json.load\<close> does now: the
  exception it raises, or the value it returns (\<open>open_and_load\<close> below gives it for
  each state of the file on disk). \<open>makedirs\<close> and \<open>write_file\<close> are the
  exceptions (if any) that creating the directory and writing the file raise; a write
  that raises leaves the file as it was. \<open>py_repr\<close> is the text Python prints for a
  list or a dict.
\<close>

record world =
  environ :: "string \<Rightarrow> string option"
  token_file :: "exn + json"
  trace :: "event list"
  clock :: "event list \<Rightarrow> datetime"
  makedirs :: "event list \<Rightarrow> exn option"
  write_file :: "event list \<Rightarrow> exn option"
  connect :: "event list \<Rightarrow> role \<Rightarrow> bool \<Rightarrow> string \<Rightarrow> exn option"
  authenticate :: "event list \<Rightarrow> role \<Rightarrow> string \<Rightarrow> exn option"
  login :: "event list \<Rightarrow> role \<Rightarrow> string option \<Rightarrow> string option \<Rightarrow> exn option"
  send_message :: "event list \<Rightarrow> string option \<Rightarrow> message \<Rightarrow> exn option"
  urlopen :: "event list \<Rightarrow> token_request \<Rightarrow> exn + json"
  py_repr :: "json \<Rightarrow> string"

definition log :: "event \<Rightarrow> world \<Rightarrow> world" where
  "log ev w = w\<lparr>trace := trace w @ [ev]\<rparr>"

text \<open>\<^verbatim>\<open>os.environ.get(k, default)\<close>.\<close>

definition environ_get :: "world \<Rightarrow> string \<Rightarrow> string \<Rightarrow> string" where
  "environ_get w k d = (case environ w k of Some v \<Rightarrow> v | None \<Rightarrow> d)"

text \<open>How an f-string prints a value, and a string that may be \<^verbatim>\<open>None\<close>.\<close>

fun py_str :: "world \<Rightarrow> json \<Rightarrow> string" where
  "py_str w (JStr s) = s"
| "py_str w JNull = ''None''"
| "py_str w (JBool b) = (if b then ''True'' else ''False'')"
| "py_str w (JNum n) = show_int n"
| "py_str w v = py_repr w v"

fun fmt :: "string option \<Rightarrow> string" where
  "fmt None = ''None''"
| "fmt (Some s) = s"


section \<open>The mail manager\<close>

subsection \<open>Configuration\<close>


definition AZURE_CLIENT_ID :: "world \<Rightarrow> string" where
  "AZURE_CLIENT_ID w = environ_get w ''AZURE_CLIENT_ID'' []"

definition AZURE_TENANT_ID :: "world \<Rightarrow> string" where
  "AZURE_TENANT_ID w = environ_get w ''AZURE_TENANT_ID'' ''consumers''"

text \<open>
  An entry of \<^verbatim>\<open>SERVERS\<close>. The port numbers are left out: they are only passed on to
  the connection, whose outcome is the oracle \<open>connect\<close>. \<open>imap_login_env\<close> is present
  for \<^verbatim>\<open>ac-creteil\<close> only.
\<close>

record config =
  imap :: string
  smtp :: string
  email_env :: string
  password_env :: string
  imap_login_env :: "string option"
  use_ssl_smtp :: bool
  use_oauth :: bool

definition SERVERS :: "world \<Rightarrow> string \<Rightarrow> config option" where
  "SERVERS w account =
     (if account = ''gmail'' then
        Some \<lparr>imap = ''imap.gmail.com'', smtp = ''smtp.gmail.com'',
              email_env = ''GMAIL_ADDRESS'', password_env = ''GMAIL_APP_PASSWORD'',
              imap_login_env = None, use_ssl_smtp = False, use_oauth = False\<rparr>
      else if account = ''ac-creteil'' then
        Some \<lparr>imap = environ_get w ''AC_CRETEIL_IMAP'' ''imap.ac-creteil.fr'',
              smtp = environ_get w ''AC_CRETEIL_SMTP'' ''smtp.ac-creteil.fr'',
              email_env = ''AC_CRETEIL_EMAIL'', password_env = ''AC_CRETEIL_PASSWORD'',
              imap_login_env = Some ''AC_CRETEIL_IMAP_LOGIN'',
              use_ssl_smtp = True, use_oauth = False\<rparr>
      else if account = ''hotmail'' then
        Some \<lparr>imap = ''outlook.office365.com'', smtp = ''smtp.office365.com'',
              email_env = ''HOTMAIL_ADDRESS'', password_env = ''HOTMAIL_APP_PASSWORD'',
              imap_login_env = None, use_ssl_smtp = False, use_oauth = True\<rparr>
      else None)"

subsection \<open>The token file on disk\<close>

text \<open>
  The states in which the script can find the token file, and what
  \<^verbatim>\<open>open(TOKEN_FILE, "r")\<close> followed by \<^verbatim>\<open>json.load\<close> does in each of them.

  The path: there is no file of that name, because the entry or a directory of the path
  is missing or a symbolic link on it dangles (\<open>Missing\<close>, the error \<^verbatim>\<open>ENOENT\<close>:
  \<^verbatim>\<open>FileNotFoundError\<close>); a directory of the path is in fact a file
  (\<open>Under_a_file\<close>, \<^verbatim>\<open>ENOTDIR\<close>: \<^verbatim>\<open>NotADirectoryError\<close>); the name is that of a
  directory (\<open>A_directory\<close>, \<^verbatim>\<open>EISDIR\<close>: \<^verbatim>\<open>IsADirectoryError\<close>); the file is there
  and the process may not read it (\<open>Forbidden\<close>, \<^verbatim>\<open>EACCES\<close>:
  \<^verbatim>\<open>PermissionError\<close>); any other failure of the operating system to open or to read
  the file, with the text of its \<^verbatim>\<open>OSError\<close> (\<open>Failing\<close>: an input/output error, a
  loop of symbolic links, too many open files); or the file is read (\<open>Holds\<close>).

  The content read: bytes that are not text in the encoding of the locale
  (\<open>Not_text\<close>: \<^verbatim>\<open>UnicodeDecodeError\<close>, a \<^verbatim>\<open>ValueError\<close> that is not a
  \<^verbatim>\<open>JSONDecodeError\<close>); text that is not a JSON document, the empty text included
  (\<open>Not_JSON\<close>: \<^verbatim>\<open>JSONDecodeError\<close>); a JSON document beyond what the interpreter
  accepts, such as arrays nested deeper than its recursion limit (\<open>Over_limit\<close>:
  \<^verbatim>\<open>RecursionError\<close>); or a JSON document, with the value that \<^verbatim>\<open>json.load\<close> returns
  for it (\<open>Document\<close>). The three failures carry the text of their exception.
\<close>

datatype content =
    Not_text string
  | Not_JSON string
  | Over_limit string
  | Document json

datatype file_state =
    Missing
  | Under_a_file
  | A_directory
  | Forbidden
  | Failing string
  | Holds content




subsection \<open>Token store\<close>

text \<open>
  \<^verbatim>\<open>save_tokens\<close> changes the dict it is given; the model returns the changed dict.
\<close>

definition save_tokens :: "world \<Rightarrow> json \<Rightarrow> (exn + json) \<times> world" where
  "save_tokens w tokens =
     (case makedirs w (trace w) of
        Some e \<Rightarrow> (Inl e, w)
      | None \<Rightarrow>
         (case setitem tokens ''saved_at'' (JStr (isoformat (clock w (trace w)))) of
            Inl e \<Rightarrow> (Inl e, w)
          | Inr tokens' \<Rightarrow>
             (case write_file w (trace w) of
                Some e \<Rightarrow> (Inl e, w)
              | None \<Rightarrow>
                 (Inr tokens', log (TokenFileWrite tokens') (w\<lparr>token_file := Inr tokens'\<rparr>)))))"

definition load_tokens :: "world \<Rightarrow> exn + json" where
  "load_tokens w =
     (case token_file w of
        Inr tokens \<Rightarrow> Inr tokens
      | Inl (FileNotFoundError m) \<Rightarrow> Inr JNull
      | Inl (JSONDecodeError m) \<Rightarrow> Inr JNull
      | Inl e \<Rightarrow> Inl e)"

text \<open>
  The result pairs of the script: \<open>(value, error)\<close> with \<^verbatim>\<open>None\<close> in one place.
\<close>

definition get_valid_access_token :: "world \<Rightarrow> exn + (json \<times> string option)" where
  "get_valid_access_token w =
     (case load_tokens w of
        Inl e \<Rightarrow> Inl e
      | Inr tokens \<Rightarrow>
         if \<not> truthy tokens then
           Inr (JNull, Some (''No tokens found. Run '' @ quoted ''oauth-init'' @ '' first.''))
         else
           (case py_in ''access_token'' tokens of
              Inl e \<Rightarrow> Inl e
            | Inr True \<Rightarrow>
               (case getitem tokens ''access_token'' of
                  Inl e \<Rightarrow> Inl e
                | Inr t \<Rightarrow> Inr (t, None))
            | Inr False \<Rightarrow> Inr (JNull, Some ''No access token found'')))"

subsection \<open>Token endpoint\<close>

text \<open>
  The two \<^verbatim>\<open>except\<close> clauses shared by \<^verbatim>\<open>exchange_code_for_tokens\<close> and
  \<^verbatim>\<open>refresh_access_token\<close>: an \<^verbatim>\<open>HTTPError\<close> is reported with its body (and reading
  the body may raise), any other exception with its text.
\<close>

fun token_failure :: "string \<Rightarrow> exn \<Rightarrow> exn + (json \<times> string option)" where
  "token_failure prefix (HTTPError m (Body b)) = Inr (JNull, Some (prefix @ b))"
| "token_failure prefix (HTTPError m (Undecodable u)) = Inl (PyException u)"
| "token_failure prefix e = Inr (JNull, Some (prefix @ str_exn e))"


definition refresh_access_token ::
    "world \<Rightarrow> json \<Rightarrow> (exn + (json \<times> string option)) \<times> world" where
  "refresh_access_token w refresh_token =
     (if \<not> (AZURE_CLIENT_ID w \<noteq> [] \<and> AZURE_TENANT_ID w \<noteq> []) then
        (Inr (JNull, Some ''Azure OAuth credentials not configured''), w)
      else
        let req = Refresh_token_grant (AZURE_CLIENT_ID w) (AZURE_TENANT_ID w) refresh_token;
            response = urlopen w (trace w) req;
            w1 = log (TokenPost req response) w
        in case response of
             Inl e \<Rightarrow> (token_failure ''Token refresh failed: '' e, w1)
           | Inr tokens \<Rightarrow>
              (case save_tokens w1 tokens of
                 (Inl e, w2) \<Rightarrow> (token_failure ''Token refresh failed: '' e, w2)
               | (Inr tokens', w2) \<Rightarrow> (Inr (tokens', None), w2)))"

subsection \<open>Bearer assertion\<close>

definition generate_oauth2_string :: "string \<Rightarrow> string \<Rightarrow> bool \<Rightarrow> string" where
  "generate_oauth2_string username access_token encode_base64 =
     (let auth_string =
            ''user='' @ username @ [CHR 0x01] @ ''auth=Bearer '' @ access_token @ [CHR 0x01, CHR 0x01]
      in if encode_base64 then b64encode auth_string else auth_string)"

subsection \<open>Credentials\<close>

text \<open>\<^verbatim>\<open>get_credentials\<close> returns \<open>(address, password, error)\<close>.\<close>

definition get_credentials ::
    "world \<Rightarrow> string \<Rightarrow> string option \<times> string option \<times> string option" where
  "get_credentials w account =
     (case SERVERS w account of
        None \<Rightarrow> (None, None, Some (''Unknown account: '' @ account))
      | Some config \<Rightarrow>
         let address = environ w (email_env config);
             password = environ w (password_env config)
         in if \<not> truthy_str address then
              (None, None, Some (''Missing '' @ email_env config))
            else if \<not> use_oauth config \<and> \<not> truthy_str password then
              (None, None, Some (''Missing '' @ password_env config))
            else
              (address,
               (if truthy_str password
                then map_option (filter (\<lambda>c. c \<noteq> CHR '' '')) password
                else password),
               None))"

subsection \<open>Token status\<close>


subsection \<open>Result records\<close>

text \<open>A string that may be \<^verbatim>\<open>None\<close>, as a value.\<close>

fun opt_json :: "string option \<Rightarrow> json" where
  "opt_json None = JNull"
| "opt_json (Some s) = JStr s"

text \<open>\<^verbatim>\<open>{"success": False, "error": error}\<close>.\<close>

definition failure :: "json \<Rightarrow> json" where
  "failure error = JObj [(''success'', JBool False), (''error'', error)]"

text \<open>The connection object \<^verbatim>\<open>imaplib.IMAP4_SSL(host, port)\<close>.\<close>

datatype mailbox = IMAP4_SSL string

subsection \<open>Opening an IMAP session\<close>

text \<open>
  The clause \<^verbatim>\<open>except imaplib.IMAP4.error as e\<close> around the first authentication
  (\<open>m\<close> is \<^verbatim>\<open>str(e)\<close>): it raises, returns an error record, or falls through
  (\<open>Inr None\<close>) to \<^verbatim>\<open>return mail, None\<close>.
\<close>

definition imap_refresh ::
    "world \<Rightarrow> string option \<Rightarrow> string \<Rightarrow> (exn + json option) \<times> world" where
  "imap_refresh w address m =
     (case load_tokens w of
        Inl e \<Rightarrow> (Inl e, w)
      | Inr tokens \<Rightarrow>
         (case (if truthy tokens then py_in ''refresh_token'' tokens else Inr False) of
            Inl e \<Rightarrow> (Inl e, w)
          | Inr False \<Rightarrow>
             (Inr (Some (failure (JStr (''OAuth failed and no refresh token: '' @ m)))), w)
          | Inr True \<Rightarrow>
             (case getitem tokens ''refresh_token'' of
                Inl e \<Rightarrow> (Inl e, w)
              | Inr refresh_token \<Rightarrow>
                 (case refresh_access_token w refresh_token of
                    (Inl e, w2) \<Rightarrow> (Inl e, w2)
                  | (Inr (new_tokens, refresh_error), w2) \<Rightarrow>
                     if truthy_str refresh_error then
                       (Inr (Some (failure (JStr (''Token refresh failed: '' @ fmt refresh_error)))), w2)
                     else
                       (case getitem new_tokens ''access_token'' of
                          Inl e \<Rightarrow> (Inl e, w2)
                        | Inr access_token \<Rightarrow>
                           let auth_string =
                                 generate_oauth2_string (fmt address) (py_str w access_token) False;
                               r = authenticate w (trace w2) Read auth_string;
                               w3 = log (Authenticate Read auth_string r) w2
                           in (case r of
                                 Some e \<Rightarrow> (Inl e, w3)
                               | None \<Rightarrow> (Inr None, w3)))))))"

text \<open>The body of the \<^verbatim>\<open>try\<close> of \<^verbatim>\<open>connect_imap\<close>.\<close>

definition connect_imap_try ::
    "world \<Rightarrow> config \<Rightarrow> string option \<Rightarrow> string option
       \<Rightarrow> (exn + mailbox option \<times> json option) \<times> world" where
  "connect_imap_try w config address password =
     (let r0 = connect w (trace w) Read True (imap config);
          w0 = log (Connect Read True (imap config) r0) w;
          mail = IMAP4_SSL (imap config)
      in case r0 of
           Some e \<Rightarrow> (Inl e, w0)
         | None \<Rightarrow>
            (if use_oauth config then
              (case get_valid_access_token w0 of
                 Inl e \<Rightarrow> (Inl e, w0)
               | Inr (access_token, token_error) \<Rightarrow>
                  if truthy_str token_error then
                    (Inr (None, Some (failure (opt_json token_error))), w0)
                  else
                    let auth_string =
                          generate_oauth2_string (fmt address) (py_str w access_token) False;
                        r1 = authenticate w (trace w0) Read auth_string;
                        w1 = log (Authenticate Read auth_string r1) w0
                    in (case r1 of
                          None \<Rightarrow> (Inr (Some mail, None), w1)
                        | Some (IMAP4_error m) \<Rightarrow>
                           (case imap_refresh w1 address m of
                              (Inl e, w2) \<Rightarrow> (Inl e, w2)
                            | (Inr (Some err), w2) \<Rightarrow> (Inr (None, Some err), w2)
                            | (Inr None, w2) \<Rightarrow> (Inr (Some mail, None), w2))
                        | Some e \<Rightarrow> (Inl e, w1)))
            else
              (let name = (case imap_login_env config of Some n \<Rightarrow> n | None \<Rightarrow> []);
                  imap_login =
                    (if environ_get w name [] \<noteq> [] then Some (environ_get w name []) else address);
                  r1 = login w (trace w0) Read imap_login password;
                  w1 = log (Login Read imap_login password r1) w0
              in (case r1 of
                    Some e \<Rightarrow> (Inl e, w1)
                  | None \<Rightarrow> (Inr (Some mail, None), w1)))))"

text \<open>\<^verbatim>\<open>connect_imap\<close> returns \<open>(mail, error)\<close>.\<close>

definition connect_imap :: "world \<Rightarrow> string \<Rightarrow> (mailbox option \<times> json option) \<times> world" where
  "connect_imap w account =
     (case SERVERS w account of
        None \<Rightarrow> ((None, Some (failure (JStr (''IMAP not configured for '' @ account)))), w)
      | Some config \<Rightarrow>
         if imap config = [] then
           ((None, Some (failure (JStr (''IMAP not configured for '' @ account)))), w)
         else
           (case get_credentials w account of
              (address, password, error) \<Rightarrow>
                if truthy_str error then ((None, Some (failure (opt_json error))), w)
                else
                  (case connect_imap_try w config address password of
                     (Inr result, w') \<Rightarrow> (result, w')
                   | (Inl (IMAP4_error m), w') \<Rightarrow>
                      ((None, Some (failure (JStr (''Authentication failed: '' @ m)))), w')
                   | (Inl e, w') \<Rightarrow>
                      ((None, Some (failure (JStr (''Connection failed: '' @ str_exn e)))), w'))))"

subsection \<open>Sending\<close>

text \<open>
  The clause \<^verbatim>\<open>except smtplib.SMTPAuthenticationError\<close> around the first
  authentication (\<open>m\<close> is the text of the exception caught): it raises (the bare
  \<^verbatim>\<open>raise\<close> raises the exception caught), returns an error record, or falls through
  (\<open>Inr None\<close>) to \<^verbatim>\<open>server.send_message\<close>.
\<close>

definition smtp_refresh ::
    "world \<Rightarrow> string option \<Rightarrow> string \<Rightarrow> (exn + json option) \<times> world" where
  "smtp_refresh w from_addr m =
     (case load_tokens w of
        Inl e \<Rightarrow> (Inl e, w)
      | Inr tokens \<Rightarrow>
         (case (if truthy tokens then py_in ''refresh_token'' tokens else Inr False) of
            Inl e \<Rightarrow> (Inl e, w)
          | Inr False \<Rightarrow> (Inl (SMTPAuthenticationError m), w)
          | Inr True \<Rightarrow>
             (case getitem tokens ''refresh_token'' of
                Inl e \<Rightarrow> (Inl e, w)
              | Inr refresh_token \<Rightarrow>
                 (case refresh_access_token w refresh_token of
                    (Inl e, w2) \<Rightarrow> (Inl e, w2)
                  | (Inr (new_tokens, refresh_error), w2) \<Rightarrow>
                     if truthy_str refresh_error then
                       (Inr (Some (failure (JStr (''Token refresh failed: '' @ fmt refresh_error)))), w2)
                     else
                       (case getitem new_tokens ''access_token'' of
                          Inl e \<Rightarrow> (Inl e, w2)
                        | Inr access_token \<Rightarrow>
                           let auth_string =
                                 generate_oauth2_string (fmt from_addr) (py_str w access_token) False;
                               r = authenticate w (trace w2) Send auth_string;
                               w3 = log (Authenticate Send auth_string r) w2
                           in (case r of
                                 Some e \<Rightarrow> (Inl e, w3)
                               | None \<Rightarrow> (Inr None, w3)))))))"

text \<open>
  \<^verbatim>\<open>server.send_message(msg)\<close>, then the record that reports success. Building the
  message and closing the connection at the end of the \<^verbatim>\<open>with\<close> block are taken not to
  raise.
\<close>

definition deliver ::
    "world \<Rightarrow> string \<Rightarrow> string option \<Rightarrow> message \<Rightarrow> (exn + json) \<times> world" where
  "deliver w account from_addr msg =
     (case msg of (to_addr, subject, body, in_reply_to) \<Rightarrow>
        let r = send_message w (trace w) from_addr msg;
            w' = log (SendMessage r) w
        in (case r of
              Some e \<Rightarrow> (Inl e, w')
            | None \<Rightarrow>
              (Inr (JObj [(''success'', JBool True),
                          (''message'',
                           JStr (''Email sent successfully from '' @ fmt from_addr @ '' to '' @ to_addr)),
                          (''details'',
                           JObj [(''from'', opt_json from_addr), (''to'', JStr to_addr),
                                 (''subject'', JStr subject), (''account'', JStr account)])]),
               w')))"

text \<open>The body of the \<^verbatim>\<open>try\<close> of \<^verbatim>\<open>send_email\<close>.\<close>

definition send_email_try ::
    "world \<Rightarrow> config \<Rightarrow> string \<Rightarrow> string option \<Rightarrow> string option \<Rightarrow> message
       \<Rightarrow> (exn + json) \<times> world" where
  "send_email_try w config account from_addr password msg =
     (if use_oauth config then
        (case get_valid_access_token w of
           Inl e \<Rightarrow> (Inl e, w)
         | Inr (access_token, token_error) \<Rightarrow>
            if truthy_str token_error then (Inr (failure (opt_json token_error)), w)
            else
              let r0 = connect w (trace w) Send False (smtp config);
                  w0 = log (Connect Send False (smtp config) r0) w
              in (case r0 of
                    Some e \<Rightarrow> (Inl e, w0)
                  | None \<Rightarrow>
                     (let auth_string =
                            generate_oauth2_string (fmt from_addr) (py_str w access_token) False;
                          r1 = authenticate w (trace w0) Send auth_string;
                          w1 = log (Authenticate Send auth_string r1) w0
                      in (case r1 of
                            None \<Rightarrow> deliver w1 account from_addr msg
                          | Some (SMTPAuthenticationError m) \<Rightarrow>
                             (case smtp_refresh w1 from_addr m of
                                (Inl e, w2) \<Rightarrow> (Inl e, w2)
                              | (Inr (Some err), w2) \<Rightarrow> (Inr err, w2)
                              | (Inr None, w2) \<Rightarrow> deliver w2 account from_addr msg)
                          | Some e \<Rightarrow> (Inl e, w1)))))
      else
        let r0 = connect w (trace w) Send (use_ssl_smtp config) (smtp config);
            w0 = log (Connect Send (use_ssl_smtp config) (smtp config) r0) w
        in (case r0 of
              Some e \<Rightarrow> (Inl e, w0)
            | None \<Rightarrow>
               (let r1 = login w (trace w0) Send from_addr password;
                    w1 = log (Login Send from_addr password r1) w0
                in (case r1 of
                      Some e \<Rightarrow> (Inl e, w1)
                    | None \<Rightarrow> deliver w1 account from_addr msg))))"

definition send_email :: "world \<Rightarrow> string \<Rightarrow> message \<Rightarrow> json \<times> world" where
  "send_email w account msg =
     (case SERVERS w account of
        None \<Rightarrow> (failure (JStr (''SMTP not configured for '' @ account)), w)
      | Some config \<Rightarrow>
         if smtp config = [] then (failure (JStr (''SMTP not configured for '' @ account)), w)
         else
           (case get_credentials w account of
              (from_addr, password, error) \<Rightarrow>
                if truthy_str error then (failure (opt_json error), w)
                else
                  (case send_email_try w config account from_addr password msg of
                     (Inr result, w') \<Rightarrow> (result, w')
                   | (Inl (SMTPAuthenticationError m), w') \<Rightarrow>
                      (failure (JStr (''Authentication failed: '' @ m)), w')
                   | (Inl (SMTPException m), w') \<Rightarrow>
                      (failure (JStr (''SMTP error: '' @ m)), w')
                   | (Inl e, w') \<Rightarrow>
                      (failure (JStr (''Failed to send: '' @ str_exn e)), w'))))"

section \<open>Sessions and what a run shows\<close>

text \<open>
  The specification's \<^verbatim>\<open>openSession(account, role)\<close> is \<^verbatim>\<open>connect_imap\<close> for the read role
  and the session part of \<^verbatim>\<open>send_email\<close> for the send role. \<open>open_session\<close> runs the
  one or the other and returns the error record of the run, if it failed, with the
  world after the run.
\<close>

definition open_session :: "role \<Rightarrow> world \<Rightarrow> string \<Rightarrow> message \<Rightarrow> json option \<times> world" where
  "open_session role w account msg =
     (case role of
        Read \<Rightarrow> (case connect_imap w account of ((mail, error), w') \<Rightarrow> (error, w'))
      | Send \<Rightarrow>
         (case send_email w account msg of
            (result, w') \<Rightarrow>
              (if getitem result ''success'' = Inr (JBool False) then Some result else None, w')))"

text \<open>
  The events of a run are those appended to the trace. An authentication attempt of a
  role is one XOAUTH2 authentication; an exchange is one request to the token endpoint;
  a write is one write of the token file. An authentication-specific error is the
  exception that the role's handler catches: \<^verbatim>\<open>imaplib.IMAP4.error\<close> when reading,
  \<^verbatim>\<open>smtplib.SMTPAuthenticationError\<close> when sending.
\<close>

definition new_events :: "world \<Rightarrow> world \<Rightarrow> event list" where
  "new_events w w' = drop (length (trace w)) (trace w')"

fun is_attempt :: "role \<Rightarrow> event \<Rightarrow> bool" where
  "is_attempt role (Authenticate r s out) = (r = role)"
| "is_attempt role ev = False"

fun is_exchange :: "event \<Rightarrow> bool" where
  "is_exchange (TokenPost req response) = True"
| "is_exchange ev = False"

fun is_write :: "event \<Rightarrow> bool" where
  "is_write (TokenFileWrite tokens) = True"
| "is_write ev = False"

fun auth_error :: "role \<Rightarrow> exn \<Rightarrow> bool" where
  "auth_error Read (IMAP4_error m) = True"
| "auth_error Send (SMTPAuthenticationError m) = True"
| "auth_error role e = False"

text \<open>
  The form that a refresh posts to the token endpoint. A refresh of the token \<open>rt\<close>
  succeeds at the history \<open>h\<close> when the client is configured, the endpoint answers the
  form with a dict \<open>resp\<close> that has the access token \<open>a2\<close>, and the token file can then
  be written. The oracles are asked at the history of the moment: \<open>h\<close> for the
  endpoint, \<open>h\<close> and the exchange for the directory and the file.
\<close>

definition refresh_request :: "world \<Rightarrow> json \<Rightarrow> token_request" where
  "refresh_request w rt = Refresh_token_grant (AZURE_CLIENT_ID w) (AZURE_TENANT_ID w) rt"

definition refresh_succeeds ::
    "world \<Rightarrow> event list \<Rightarrow> json \<Rightarrow> (string \<times> json) list \<Rightarrow> json \<Rightarrow> bool" where
  "refresh_succeeds w h rt resp a2 \<longleftrightarrow>
     AZURE_CLIENT_ID w \<noteq> [] \<and> AZURE_TENANT_ID w \<noteq> []
   \<and> urlopen w h (refresh_request w rt) = Inr (JObj resp)
   \<and> makedirs w (h @ [TokenPost (refresh_request w rt) (Inr (JObj resp))]) = None
   \<and> write_file w (h @ [TokenPost (refresh_request w rt) (Inr (JObj resp))]) = None
   \<and> map_of resp ''access_token'' = Some a2"

section \<open>The errors of the specification\<close>

text \<open>
  The error kinds of the specification, as the records in which the script reports
  them.
\<close>

definition UnknownAccount :: "string \<Rightarrow> json" where
  "UnknownAccount account = failure (JStr (''Unknown account: '' @ account))"

definition ProtocolUnsupported :: "role \<Rightarrow> string \<Rightarrow> json" where
  "ProtocolUnsupported role account =
     failure (JStr ((case role of Read \<Rightarrow> ''IMAP'' | Send \<Rightarrow> ''SMTP'') @ '' not configured for '' @ account))"


definition AuthenticationFailed :: "string \<Rightarrow> json" where
  "AuthenticationFailed detail = failure (JStr (''Authentication failed: '' @ detail))"



text \<open>
  Whitespace, as the specification's sentence on secrets has it: the characters of
  \<^verbatim>\<open>string.whitespace\<close>.
\<close>

definition is_whitespace :: "char \<Rightarrow> bool" where
  "is_whitespace c = (c \<in> set [CHR '' '', CHR 0x09, CHR 0x0A, CHR 0x0B, CHR 0x0C, CHR 0x0D])"

text \<open>\<^verbatim>\<open>s.split(c)\<close>: the fields of a string between the occurrences of a separator.\<close>

fun split_on :: "char \<Rightarrow> string \<Rightarrow> string list" where
  "split_on c [] = [[]]"
| "split_on c (x # xs) =
     (if x = c then [] # split_on c xs
      else (case split_on c xs of [] \<Rightarrow> [[x]] | y # ys \<Rightarrow> (x # y) # ys))"

section \<open>Example worlds\<close>

text \<open>
  A world in which nothing is configured, no token file exists, every server accepts
  every request and the token endpoint cannot be reached.
\<close>

definition idle_world :: world where
  "idle_world =
     \<lparr>environ = (\<lambda>k. None),
      token_file = Inl (FileNotFoundError ''[Errno 2] No such file or directory''),
      trace = [],
      clock = (\<lambda>h. \<lparr>year = 2026, month = 2, day = 3, hour = 14, minute = 5, second = 9,
                       microsecond = 0\<rparr>),
      makedirs = (\<lambda>h. None),
      write_file = (\<lambda>h. None),
      connect = (\<lambda>h r tls host. None),
      authenticate = (\<lambda>h r s. None),
      login = (\<lambda>h r user password. None),
      send_message = (\<lambda>h sender msg. None),
      urlopen = (\<lambda>h req. Inl (PyException ''<urlopen error timed out>'')),
      py_repr = (\<lambda>v. [])\<rparr>"

text \<open>The Gmail account configured with an address and the given app password.\<close>

definition gmail_world :: "string \<Rightarrow> world" where
  "gmail_world secret =
     idle_world\<lparr>environ := map_of [(''GMAIL_ADDRESS'', ''me@gmail.com''),
                                   (''GMAIL_APP_PASSWORD'', secret)]\<rparr>"

text \<open>
  The Hotmail account with a configured address and client identifier, the given token
  file, and a token endpoint that answers every request with the given response. The
  servers accept the access token \<^verbatim>\<open>A2\<close> and reject every other one with the role's
  authentication error.
\<close>

definition hotmail_world :: "exn + json \<Rightarrow> exn + json \<Rightarrow> world" where
  "hotmail_world file response =
     idle_world\<lparr>environ := map_of [(''HOTMAIL_ADDRESS'', ''me@hotmail.com''),
                                   (''AZURE_CLIENT_ID'', ''client-1'')],
                 token_file := file,
                 authenticate :=
                   (\<lambda>h r s. if s = generate_oauth2_string ''me@hotmail.com'' ''A2'' False then None
                            else Some (case r of
                                         Read \<Rightarrow> IMAP4_error ''AUTHENTICATE failed''
                                       | Send \<Rightarrow> SMTPAuthenticationError ''(535, Authentication unsuccessful)'')),
                 urlopen := (\<lambda>h req. response)\<rparr>"

text \<open>A message to send, token files and responses of the token endpoint.\<close>

definition hello :: message where
  "hello = (''you@example.org'', ''Hello'', ''Text'', None)"



definition stored_A1_R1 :: "exn + json" where
  "stored_A1_R1 = Inr (JObj [(''access_token'', JStr ''A1''), (''refresh_token'', JStr ''R1'')])"

definition refreshed_A2_R2 :: "exn + json" where
  "refreshed_A2_R2 = Inr (JObj [(''access_token'', JStr ''A2''), (''refresh_token'', JStr ''R2'')])"

definition invalid_grant :: "exn + json" where
  "invalid_grant = Inl (HTTPError ''HTTP Error 400: Bad Request'' (Body ''invalid_grant''))"

definition accepted_A2 :: "exn + json" where
  "accepted_A2 = Inr (JObj [(''access_token'', JStr ''A2'')])"

definition refreshed_A3 :: "exn + json" where
  "refreshed_A3 = Inr (JObj [(''access_token'', JStr ''A3'')])"

section \<open>The shape of a run\<close>

text \<open>
  Definitions for the proofs about sessions. \<open>retry\<close> is the text shared by the two
  handlers \<^verbatim>\<open>imap_refresh\<close> and \<^verbatim>\<open>smtp_refresh\<close>, with the role and with what the handler
  does without a refresh token as parameters. \<open>handler_shape\<close> lists what a handler can
  leave behind: nothing, one exchange, an exchange and a write, or an exchange, a write
  and the second authentication attempt. \<open>session_shape\<close> does the same for a whole run:
  either it has no attempt, exchange or write, or it reaches the first attempt with the
  stored access token and goes on as the outcome of that attempt says.
\<close>

definition stamped :: "world \<Rightarrow> event list \<Rightarrow> (string \<times> json) list \<Rightarrow> json" where
  "stamped w h resp = JObj (AList.update ''saved_at'' (JStr (isoformat (clock w h))) resp)"

definition retry ::
    "role \<Rightarrow> exn + json option \<Rightarrow> world \<Rightarrow> string option \<Rightarrow> (exn + json option) \<times> world" where
  "retry role fallback w address =
     (case load_tokens w of
        Inl e \<Rightarrow> (Inl e, w)
      | Inr tokens \<Rightarrow>
         (case (if truthy tokens then py_in ''refresh_token'' tokens else Inr False) of
            Inl e \<Rightarrow> (Inl e, w)
          | Inr False \<Rightarrow> (fallback, w)
          | Inr True \<Rightarrow>
             (case getitem tokens ''refresh_token'' of
                Inl e \<Rightarrow> (Inl e, w)
              | Inr refresh_token \<Rightarrow>
                 (case refresh_access_token w refresh_token of
                    (Inl e, w2) \<Rightarrow> (Inl e, w2)
                  | (Inr (new_tokens, refresh_error), w2) \<Rightarrow>
                     if truthy_str refresh_error then
                       (Inr (Some (failure (JStr (''Token refresh failed: '' @ fmt refresh_error)))), w2)
                     else
                       (case getitem new_tokens ''access_token'' of
                          Inl e \<Rightarrow> (Inl e, w2)
                        | Inr access_token \<Rightarrow>
                           let auth_string =
                                 generate_oauth2_string (fmt address) (py_str w access_token) False;
                               r = authenticate w (trace w2) role auth_string;
                               w3 = log (Authenticate role auth_string r) w2
                           in (case r of
                                 Some e \<Rightarrow> (Inl e, w3)
                               | None \<Rightarrow> (Inr None, w3)))))))"

definition handler_shape ::
    "role \<Rightarrow> world \<Rightarrow> string option \<Rightarrow> exn + json option \<Rightarrow> world \<Rightarrow> bool" where
  "handler_shape role w address r w' \<longleftrightarrow>
     (trace w' = trace w \<and> token_file w' = token_file w \<and> r \<noteq> Inr None)
   \<or> (\<exists>req resp. trace w' = trace w @ [TokenPost req resp]
          \<and> token_file w' = token_file w \<and> r \<noteq> Inr None)
   \<or> (\<exists>tokens rt resp saved post.
          load_tokens w = Inr tokens \<and> getitem tokens ''refresh_token'' = Inr rt
        \<and> post = TokenPost (refresh_request w rt) (Inr (JObj resp))
        \<and> saved = stamped w (trace w @ [post]) resp
        \<and> token_file w' = Inr saved
        \<and> ((trace w' = trace w @ [post, TokenFileWrite saved]
               \<and> (\<exists>e. getitem saved ''access_token'' = Inl e \<and> r = Inl e))
           \<or> (\<exists>a2 out2.
                 getitem saved ''access_token'' = Inr a2
               \<and> trace w' = trace w @ [post, TokenFileWrite saved,
                    Authenticate role (generate_oauth2_string (fmt address) (py_str w a2) False) out2]
               \<and> out2 = authenticate w (trace w @ [post, TokenFileWrite saved]) role
                          (generate_oauth2_string (fmt address) (py_str w a2) False)
               \<and> r = (case out2 of None \<Rightarrow> Inr None | Some e \<Rightarrow> Inl e))))"

definition host :: "role \<Rightarrow> config \<Rightarrow> string" where
  "host role config = (case role of Read \<Rightarrow> imap config | Send \<Rightarrow> smtp config)"

fun without_refresh_token :: "role \<Rightarrow> string \<Rightarrow> exn + json option" where
  "without_refresh_token Read m =
     Inr (Some (failure (JStr (''OAuth failed and no refresh token: '' @ m))))"
| "without_refresh_token Send m = Inl (SMTPAuthenticationError m)"

fun reported :: "role \<Rightarrow> exn + json option \<Rightarrow> json option" where
  "reported Read (Inl (IMAP4_error m)) = Some (failure (JStr (''Authentication failed: '' @ m)))"
| "reported Read (Inl e) = Some (failure (JStr (''Connection failed: '' @ str_exn e)))"
| "reported Send (Inl (SMTPAuthenticationError m)) =
     Some (failure (JStr (''Authentication failed: '' @ m)))"
| "reported Send (Inl (SMTPException m)) = Some (failure (JStr (''SMTP error: '' @ m)))"
| "reported Send (Inl e) = Some (failure (JStr (''Failed to send: '' @ str_exn e)))"
| "reported role (Inr x) = x"

definition quiet :: "role \<Rightarrow> event list \<Rightarrow> bool" where
  "quiet role evs = (\<forall>ev \<in> set evs. \<not> is_attempt role ev \<and> \<not> is_exchange ev \<and> \<not> is_write ev)"

definition session_shape :: "role \<Rightarrow> world \<Rightarrow> string \<Rightarrow> json option \<Rightarrow> world \<Rightarrow> bool" where
  "session_shape role w account error w' \<longleftrightarrow>
     (token_file w' = token_file w \<and> quiet role (new_events w w'))
   \<or> (\<exists>config tokens a1 s1 out1 w1 r w2 post.
         SERVERS w account = Some config \<and> use_oauth config
       \<and> load_tokens w = Inr tokens \<and> getitem tokens ''access_token'' = Inr a1
       \<and> s1 = generate_oauth2_string (fmt (fst (get_credentials w account))) (py_str w a1) False
       \<and> out1 = authenticate w (trace w @ [Connect role (role = Read) (host role config) None]) role s1
       \<and> w1 = log (Authenticate role s1 out1)
                 (log (Connect role (role = Read) (host role config) None) w)
       \<and> (case out1 of
             None \<Rightarrow> r = Inr None \<and> w2 = w1
           | Some e \<Rightarrow>
               if auth_error role e
               then retry role (without_refresh_token role (str_exn e)) w1
                      (fst (get_credentials w account)) = (r, w2)
               else r = Inl e \<and> w2 = w1)
       \<and> trace w' = trace w2 @ post \<and> token_file w' = token_file w2 \<and> quiet role post
       \<and> (r \<noteq> Inr None \<longrightarrow> post = [] \<and> error = reported role r)
       \<and> (r = Inr None \<and> role = Read \<longrightarrow> error = None))"

definition send_error :: "exn + json \<Rightarrow> json option" where
  "send_error r =
     (case r of
        Inl e \<Rightarrow> reported Send (Inl e)
      | Inr result \<Rightarrow> if getitem result ''success'' = Inr (JBool False) then Some result else None)"

lemmas run_defs =
  open_session_def connect_imap_def connect_imap_try_def send_email_def send_email_try_def
  imap_refresh_def smtp_refresh_def deliver_def refresh_access_token_def save_tokens_def
  get_credentials_def SERVERS_def get_valid_access_token_def load_tokens_def
  hotmail_world_def idle_world_def log_def hello_def failure_def new_events_def
  AZURE_CLIENT_ID_def AZURE_TENANT_ID_def environ_get_def Let_def

section \<open>Properties\<close>

subsection \<open>Credential resolution\<close>

text \<open>
  C3, as amended. For every account in static-secret mode, \<^verbatim>\<open>get_credentials\<close> fails
  with a \<^verbatim>\<open>Missing ...\<close> error if and only if the configured address or the configured
  secret is unset or empty; the error names the address variable when the address is
  missing, and the secret variable otherwise. When both are present, the secret is
  returned with every space character (U+0020) removed; other whitespace is kept.
\<close>

theorem static_credentials:
  assumes "SERVERS w account = Some config" and "\<not> use_oauth config"
  shows "((\<exists>field. get_credentials w account = (None, None, Some (''Missing '' @ field)))
            \<longleftrightarrow> (\<not> truthy_str (environ w (email_env config))
                 \<or> \<not> truthy_str (environ w (password_env config))))
       \<and> (\<not> truthy_str (environ w (email_env config))
            \<longrightarrow> get_credentials w account = (None, None, Some (''Missing '' @ email_env config)))
       \<and> (truthy_str (environ w (email_env config))
            \<and> \<not> truthy_str (environ w (password_env config))
            \<longrightarrow> get_credentials w account = (None, None, Some (''Missing '' @ password_env config)))
       \<and> (\<forall>a p. environ w (email_env config) = Some a \<and> a \<noteq> []
                \<and> environ w (password_env config) = Some p \<and> p \<noteq> []
            \<longrightarrow> get_credentials w account = (Some a, Some (filter (\<lambda>c. c \<noteq> CHR '' '') p), None)
                \<and> CHR '' '' \<notin> set (filter (\<lambda>c. c \<noteq> CHR '' '') p))"
  using assms by (auto simp: get_credentials_def Let_def)

text \<open>
  The scenario of the specification: the secret \<^verbatim>\<open>abcd efgh ijkl mnop\<close> of the Gmail
  account resolves to \<^verbatim>\<open>abcdefghijklmnop\<close>. With an empty secret, and with nothing
  configured, the error names the variable that is missing.
\<close>

theorem static_credentials_witness:
  "(\<exists>c. SERVERS (gmail_world ''abcd efgh ijkl mnop'') ''gmail'' = Some c \<and> \<not> use_oauth c)
   \<and> get_credentials (gmail_world ''abcd efgh ijkl mnop'') ''gmail''
         = (Some ''me@gmail.com'', Some ''abcdefghijklmnop'', None)
   \<and> get_credentials (gmail_world []) ''gmail'' = (None, None, Some ''Missing GMAIL_APP_PASSWORD'')
   \<and> get_credentials idle_world ''gmail'' = (None, None, Some ''Missing GMAIL_ADDRESS'')"
proof -
  let ?w = "gmail_world ''abcd efgh ijkl mnop''"
  obtain c where c: "SERVERS ?w ''gmail'' = Some c" and o: "\<not> use_oauth c"
      and e: "email_env c = ''GMAIL_ADDRESS''" and p: "password_env c = ''GMAIL_APP_PASSWORD''"
    by (simp add: SERVERS_def)
  have c1: "SERVERS (gmail_world []) ''gmail'' = Some c" and c2: "SERVERS idle_world ''gmail'' = Some c"
    using c by (simp_all add: SERVERS_def)
  have "environ ?w (email_env c) = Some ''me@gmail.com''"
       "environ ?w (password_env c) = Some ''abcd efgh ijkl mnop''"
       "environ (gmail_world []) (email_env c) = Some ''me@gmail.com''"
       "environ (gmail_world []) (password_env c) = Some []"
       "environ idle_world (email_env c) = None"
    by (simp_all add: e p gmail_world_def idle_world_def)
  with static_credentials [OF c o] static_credentials [OF c1 o] static_credentials [OF c2 o] c o e p
  show ?thesis by simp
qed

text \<open>
  C3 as stated fails: a tab inside the secret is whitespace, and it is still in the
  secret that \<^verbatim>\<open>get_credentials\<close> returns.
\<close>

theorem whitespace_counterexample:
  "get_credentials (gmail_world (''abcd'' @ [CHR 0x09] @ ''efgh'')) ''gmail''
     = (Some ''me@gmail.com'', Some (''abcd'' @ [CHR 0x09] @ ''efgh''), None)
   \<and> CHR 0x09 \<in> set (''abcd'' @ [CHR 0x09] @ ''efgh'')
   \<and> is_whitespace (CHR 0x09)"
  by (simp add: get_credentials_def SERVERS_def gmail_world_def idle_world_def is_whitespace_def)

subsection \<open>Unknown accounts\<close>

text \<open>
  C8, as amended. For every account identifier that is not \<^verbatim>\<open>gmail\<close>, \<^verbatim>\<open>ac-creteil\<close> or
  \<^verbatim>\<open>hotmail\<close>, \<^verbatim>\<open>get_credentials\<close> fails with \<^verbatim>\<open>Unknown account\<close>, while opening a
  session in either role fails, without any event, with the role's
  \<^verbatim>\<open>... not configured for ...\<close> error. That error is not the unknown-account error, and it
  is the error that an enumerated account without the role's host gets as well.
\<close>

theorem unknown_account:
  assumes "account \<notin> {''gmail'', ''ac-creteil'', ''hotmail''}"
  shows "get_credentials w account = (None, None, Some (''Unknown account: '' @ account))
       \<and> open_session role w account msg = (Some (ProtocolUnsupported role account), w)
       \<and> ProtocolUnsupported role account \<noteq> UnknownAccount account
       \<and> (\<forall>a c. SERVERS w a = Some c \<and> (case role of Read \<Rightarrow> imap c | Send \<Rightarrow> smtp c) = []
            \<longrightarrow> open_session role w a msg = (Some (ProtocolUnsupported role a), w))"
  using assms
  by (cases role)
     (auto simp: get_credentials_def open_session_def connect_imap_def send_email_def SERVERS_def
           ProtocolUnsupported_def UnknownAccount_def failure_def)

theorem unknown_account_witness:
  "''yahoo'' \<notin> {''gmail'', ''ac-creteil'', ''hotmail''}
   \<and> get_credentials idle_world ''yahoo'' = (None, None, Some ''Unknown account: yahoo'')
   \<and> open_session Read idle_world ''yahoo'' hello
       = (Some (failure (JStr ''IMAP not configured for yahoo'')), idle_world)
   \<and> open_session Send idle_world ''yahoo'' hello
       = (Some (failure (JStr ''SMTP not configured for yahoo'')), idle_world)
   \<and> open_session Read (idle_world\<lparr>environ := map_of [(''AC_CRETEIL_IMAP'', [])]\<rparr>) ''ac-creteil'' hello
       = (Some (failure (JStr ''IMAP not configured for ac-creteil'')),
          idle_world\<lparr>environ := map_of [(''AC_CRETEIL_IMAP'', [])]\<rparr>)"
proof -
  let ?w = "idle_world\<lparr>environ := map_of [(''AC_CRETEIL_IMAP'', [])]\<rparr>"
  have n: "''yahoo'' \<notin> {''gmail'', ''ac-creteil'', ''hotmail''}" by simp
  obtain c where c: "SERVERS ?w ''ac-creteil'' = Some c" and i: "imap c = []"
    by (simp add: SERVERS_def environ_get_def)
  from unknown_account [OF n, of ?w Read hello] c i
  have "open_session Read ?w ''ac-creteil'' hello = (Some (ProtocolUnsupported Read ''ac-creteil''), ?w)"
    by auto
  with unknown_account [OF n, of idle_world Read hello]
       unknown_account [OF n, of idle_world Send hello] n
  show ?thesis by (simp add: ProtocolUnsupported_def)
qed

text \<open>
  C8 as stated fails: for the unknown account \<^verbatim>\<open>yahoo\<close> a session open returns the
  protocol-unsupported error, not the unknown-account error.
\<close>

theorem unknown_account_counterexample:
  "fst (open_session Read idle_world ''yahoo'' (''you@example.org'', ''Hello'', ''Text'', None))
     = Some (ProtocolUnsupported Read ''yahoo'')
   \<and> fst (open_session Read idle_world ''yahoo'' (''you@example.org'', ''Hello'', ''Text'', None))
     \<noteq> Some (UnknownAccount ''yahoo'')
   \<and> fst (open_session Send idle_world ''yahoo'' (''you@example.org'', ''Hello'', ''Text'', None))
     \<noteq> Some (UnknownAccount ''yahoo'')"
  by (simp add: open_session_def connect_imap_def send_email_def SERVERS_def idle_world_def
        ProtocolUnsupported_def UnknownAccount_def failure_def)

subsection \<open>Token store\<close>





subsection \<open>Bearer assertion\<close>

text \<open>
  C6. For every user name and access token, \<^verbatim>\<open>generate_oauth2_string\<close> returns the user
  identity (\<^verbatim>\<open>user=\<close> and the name), the control byte 0x01, the bearer marker and the
  access token (\<^verbatim>\<open>auth=Bearer\<close>, a space and the token), and two bytes 0x01 at the
  end. Without \<^verbatim>\<open>encode_base64\<close> the string is returned as it is; with it, the result
  is the base64 encoding of that string.
\<close>

theorem bearer_assertion_layout:
  "generate_oauth2_string username access_token False
     = ''user='' @ username @ [CHR 0x01] @ ''auth=Bearer '' @ access_token @ [CHR 0x01, CHR 0x01]
   \<and> generate_oauth2_string username access_token True
     = b64encode (generate_oauth2_string username access_token False)"
  by (simp add: generate_oauth2_string_def)

text \<open>
  Read back at the control byte, the assertion has the field of the user, the field of
  the bearer marker and token, and two empty fields for the two bytes at the end.
\<close>

lemma split_on_field: "c \<notin> set a \<Longrightarrow> split_on c (a @ c # rest) = a # split_on c rest"
  by (induction a) (auto split: list.splits)

lemma split_on_last: "c \<notin> set a \<Longrightarrow> split_on c a = [a]"
  by (induction a) auto

lemma bearer_assertion_fields:
  assumes "CHR 0x01 \<notin> set username" and "CHR 0x01 \<notin> set access_token"
  shows "split_on (CHR 0x01) (generate_oauth2_string username access_token False)
           = [''user='' @ username, ''auth=Bearer '' @ access_token, [], []]"
proof -
  have u: "CHR 0x01 \<notin> set (''user='' @ username)"
    and t: "CHR 0x01 \<notin> set (''auth=Bearer '' @ access_token)"
    using assms by simp_all
  have "generate_oauth2_string username access_token False
          = (''user='' @ username) @ CHR 0x01 # (''auth=Bearer '' @ access_token) @ CHR 0x01 # [CHR 0x01]"
    by (simp add: generate_oauth2_string_def)
  then show ?thesis
    by (simp only: split_on_field [OF u] split_on_field [OF t]) simp
qed

lemma bearer_assertion_example:
  "generate_oauth2_string ''me@hotmail.com'' ''A1'' True
     = ''dXNlcj1tZUBob3RtYWlsLmNvbQFhdXRoPUJlYXJlciBBMQEB''"
  by (simp add: generate_oauth2_string_def b64_char_def)

subsection \<open>Token status\<close>








subsection \<open>The result of connect_imap\<close>

lemma truthy_strE:
  assumes "truthy_str e" obtains d where "e = Some d" and "d \<noteq> []"
  using assms by (cases e) auto

lemma imap_refresh_cases:
  "imap_refresh w a m = (r, w') \<Longrightarrow>
     (\<exists>e. r = Inl e) \<or> r = Inr None \<or> (\<exists>d. d \<noteq> [] \<and> r = Inr (Some (failure (JStr d))))"
  by (auto simp: imap_refresh_def Let_def split: sum.splits bool.splits prod.splits if_splits option.splits)

lemma connect_imap_try_cases:
  "connect_imap_try w c a p = (r, w') \<Longrightarrow>
     (\<exists>e. r = Inl e) \<or> (\<exists>mail. r = Inr (Some mail, None))
       \<or> (\<exists>d. d \<noteq> [] \<and> r = Inr (None, Some (failure (JStr d))))"
  by (auto simp: connect_imap_try_def Let_def
       split: option.splits if_splits sum.splits prod.splits exn.splits
       dest!: imap_refresh_cases elim!: truthy_strE)

text \<open>
  C10. For every account identifier and every world, \<^verbatim>\<open>connect_imap\<close> returns either a
  connection and no error record, or no connection and an error record; the error
  record has \<^verbatim>\<open>success\<close> false and a non-empty \<^verbatim>\<open>error\<close> string.
\<close>

theorem connect_imap_result:
  "\<exists>w'. (\<exists>mail. connect_imap w account = ((Some mail, None), w'))
        \<or> (\<exists>detail. detail \<noteq> [] \<and> connect_imap w account = ((None, Some (failure (JStr detail))), w'))"
proof (cases "SERVERS w account")
  case None
  then show ?thesis by (auto simp: connect_imap_def)
next
  case (Some config)
  show ?thesis
  proof (cases "imap config = []")
    case True
    with Some show ?thesis by (auto simp: connect_imap_def)
  next
    case False
    obtain address password error where g: "get_credentials w account = (address, password, error)"
      by (cases "get_credentials w account") auto
    show ?thesis
    proof (cases "truthy_str error")
      case True
      then obtain d where "error = Some d" "d \<noteq> []" by (rule truthy_strE)
      with Some False g show ?thesis by (auto simp: connect_imap_def)
    next
      case no_error: False
      obtain r w' where t: "connect_imap_try w config address password = (r, w')"
        by (cases "connect_imap_try w config address password") auto
      from connect_imap_try_cases [OF t] Some False g no_error t show ?thesis
        by (auto simp: connect_imap_def split: exn.splits)
    qed
  qed
qed

subsection \<open>The token endpoint and the handlers\<close>

lemma save_tokens_shape:
  assumes "save_tokens w t = (r, w')"
  shows "(\<exists>e. r = Inl e \<and> w' = w)
       \<or> (\<exists>kvs saved. t = JObj kvs
             \<and> saved = JObj (AList.update ''saved_at'' (JStr (isoformat (clock w (trace w)))) kvs)
             \<and> r = Inr saved
             \<and> w' = log (TokenFileWrite saved) (w\<lparr>token_file := Inr saved\<rparr>))"
  using assms
  by (cases t) (auto simp: save_tokens_def split: option.splits)

lemma token_failure_shape:
  "(\<exists>e. token_failure p e' = Inl e) \<or> (\<exists>m. token_failure p e' = Inr (JNull, Some (p @ m)))"
  by (cases "(p, e')" rule: token_failure.cases) auto

lemma trace_log [simp]: "trace (log ev w) = trace w @ [ev]"
  and token_file_log [simp]: "token_file (log ev w) = token_file w"
  and authenticate_log [simp]: "authenticate (log ev w) = authenticate w"
  and py_repr_log [simp]: "py_repr (log ev w) = py_repr w"
  and environ_log [simp]: "environ (log ev w) = environ w"
  by (simp_all add: log_def)

lemma py_str_log [simp]: "py_str (log ev w) v = py_str w v"
  by (cases v) simp_all

lemma refresh_shape2:
  assumes "refresh_access_token w rt = (r, w')"
  shows "(trace w' = trace w \<and> token_file w' = token_file w \<and> (\<exists>m. m \<noteq> [] \<and> r = Inr (JNull, Some m)))
       \<or> (\<exists>req resp. trace w' = trace w @ [TokenPost req resp] \<and> token_file w' = token_file w
             \<and> ((\<exists>e. r = Inl e) \<or> (\<exists>m. m \<noteq> [] \<and> r = Inr (JNull, Some m))))
       \<or> (\<exists>resp saved.
             saved = stamped w (trace w @ [TokenPost (refresh_request w rt) (Inr (JObj resp))]) resp
             \<and> r = Inr (saved, None) \<and> token_file w' = Inr saved
             \<and> trace w' = trace w @ [TokenPost (refresh_request w rt) (Inr (JObj resp)), TokenFileWrite saved])"
proof (cases "AZURE_CLIENT_ID w \<noteq> [] \<and> AZURE_TENANT_ID w \<noteq> []")
  case False
  with assms show ?thesis by (auto simp: refresh_access_token_def)
next
  case True
  let ?req = "refresh_request w rt"
  let ?w1 = "log (TokenPost ?req (urlopen w (trace w) ?req)) w"
  have fail: "(\<exists>e'. token_failure ''Token refresh failed: '' e = Inl e')
       \<or> (\<exists>m. m \<noteq> [] \<and> token_failure ''Token refresh failed: '' e = Inr (JNull, Some m))" for e
    using token_failure_shape [of "''Token refresh failed: ''" e] by auto
  show ?thesis
  proof (cases "urlopen w (trace w) ?req")
    case (Inl e)
    with True assms have "w' = ?w1" "r = token_failure ''Token refresh failed: '' e"
      by (auto simp: refresh_access_token_def refresh_request_def Let_def)
    with fail [of e] show ?thesis by auto
  next
    case (Inr tokens)
    obtain r2 w2 where s: "save_tokens ?w1 tokens = (r2, w2)"
      by (cases "save_tokens ?w1 tokens") auto
    from save_tokens_shape [OF s] show ?thesis
    proof (elim disjE exE conjE)
      fix e assume "r2 = Inl e" "w2 = ?w1"
      with True assms Inr s have "w' = ?w1" "r = token_failure ''Token refresh failed: '' e"
        by (auto simp: refresh_access_token_def refresh_request_def Let_def)
      with fail [of e] show ?thesis by auto
    next
      fix kvs saved
      assume k: "tokens = JObj kvs"
        and "saved = JObj (AList.update ''saved_at'' (JStr (isoformat (clock ?w1 (trace ?w1)))) kvs)"
        and "r2 = Inr saved" and "w2 = log (TokenFileWrite saved) (?w1\<lparr>token_file := Inr saved\<rparr>)"
      with True assms Inr s
      have "r = Inr (saved, None)" "token_file w' = Inr saved"
        "trace w' = trace w @ [TokenPost ?req (Inr (JObj kvs)), TokenFileWrite saved]"
        "saved = stamped w (trace w @ [TokenPost ?req (Inr (JObj kvs))]) kvs"
        by (auto simp: refresh_access_token_def refresh_request_def Let_def log_def stamped_def)
      then show ?thesis by blast
    qed
  qed
qed

lemma handler_shape_saved:
  assumes "load_tokens w = Inr tokens" and "getitem tokens ''refresh_token'' = Inr rt"
    and "saved = stamped w (trace w @ [TokenPost (refresh_request w rt) (Inr (JObj resp))]) resp"
    and "token_file w' = Inr saved"
    and "(trace w' = trace w @ [TokenPost (refresh_request w rt) (Inr (JObj resp)), TokenFileWrite saved]
               \<and> (\<exists>e. getitem saved ''access_token'' = Inl e \<and> r = Inl e))
           \<or> (\<exists>a2 out2.
                 getitem saved ''access_token'' = Inr a2
               \<and> trace w' = trace w @ [TokenPost (refresh_request w rt) (Inr (JObj resp)),
                    TokenFileWrite saved,
                    Authenticate role (generate_oauth2_string (fmt address) (py_str w a2) False) out2]
               \<and> out2 = authenticate w (trace w @ [TokenPost (refresh_request w rt) (Inr (JObj resp)),
                                                   TokenFileWrite saved]) role
                          (generate_oauth2_string (fmt address) (py_str w a2) False)
               \<and> r = (case out2 of None \<Rightarrow> Inr None | Some e \<Rightarrow> Inl e))"
  shows "handler_shape role w address r w'"
  unfolding handler_shape_def using assms by blast

lemma imap_refresh_retry:
  "imap_refresh w address m
     = retry Read (Inr (Some (failure (JStr (''OAuth failed and no refresh token: '' @ m))))) w address"
  unfolding imap_refresh_def retry_def by (rule refl)

lemma smtp_refresh_retry:
  "smtp_refresh w address m = retry Send (Inl (SMTPAuthenticationError m)) w address"
  unfolding smtp_refresh_def retry_def by (rule refl)

lemma retry_shape:
  assumes run: "retry role fallback w address = (r, w')" and fb: "fallback \<noteq> Inr None"
  shows "handler_shape role w address r w'"
proof (cases "load_tokens w")
  case (Inl e)
  with run show ?thesis by (auto simp: retry_def handler_shape_def)
next
  case (Inr tokens)
  show ?thesis
  proof (cases "if truthy tokens then py_in ''refresh_token'' tokens else Inr False")
    case (Inl e)
    with run Inr show ?thesis by (auto simp: retry_def handler_shape_def)
  next
    case has: (Inr b)
    show ?thesis
    proof (cases b)
      case False
      with run Inr has fb show ?thesis by (auto simp: retry_def handler_shape_def)
    next
      case True
      show ?thesis
      proof (cases "getitem tokens ''refresh_token''")
        case (Inl e)
        with run Inr has True show ?thesis by (auto simp: retry_def handler_shape_def)
      next
        case rt: (Inr rt)
        obtain r2 w2 where x: "refresh_access_token w rt = (r2, w2)"
          by (cases "refresh_access_token w rt") auto
        from refresh_shape2 [OF x] show ?thesis
        proof (elim disjE exE conjE)
          fix m assume "trace w2 = trace w" "token_file w2 = token_file w" "m \<noteq> []"
            "r2 = Inr (JNull, Some m)"
          with run Inr has True rt x show ?thesis
            by (auto simp: retry_def handler_shape_def)
        next
          fix req resp e
          assume "trace w2 = trace w @ [TokenPost req resp]" "token_file w2 = token_file w"
            "r2 = Inl e"
          with run Inr has True rt x show ?thesis
            by (auto simp: retry_def handler_shape_def)
        next
          fix req resp m
          assume "trace w2 = trace w @ [TokenPost req resp]" "token_file w2 = token_file w"
            "m \<noteq> []" "r2 = Inr (JNull, Some m)"
          with run Inr has True rt x show ?thesis
            by (auto simp: retry_def handler_shape_def)
        next
          fix resp saved
          assume s: "saved = stamped w (trace w @ [TokenPost (refresh_request w rt) (Inr (JObj resp))]) resp"
            and r2: "r2 = Inr (saved, None)" and f: "token_file w2 = Inr saved"
            and t: "trace w2 = trace w @ [TokenPost (refresh_request w rt) (Inr (JObj resp)), TokenFileWrite saved]"
          show ?thesis
          proof (cases "getitem saved ''access_token''")
            case (Inl e)
            with run Inr has True rt x r2 have "r = Inl e" "w' = w2"
              by (auto simp: retry_def)
            with Inl f t show ?thesis
              by (intro handler_shape_saved [OF Inr rt s]) auto
          next
            case a2: (Inr a2)
            let ?s2 = "generate_oauth2_string (fmt address) (py_str w a2) False"
            let ?out = "authenticate w (trace w2) role ?s2"
            from assms Inr has True rt x r2 a2
            have "r = (case ?out of None \<Rightarrow> Inr None | Some e \<Rightarrow> Inl e)"
              "w' = log (Authenticate role ?s2 ?out) w2"
              by (auto simp: retry_def Let_def split: option.splits)
            with a2 f t show ?thesis
              by (intro handler_shape_saved [OF Inr rt s]) auto
          qed
        qed
      qed
    qed
  qed
qed


subsection \<open>Every run has the shape of a session\<close>

lemma session_shape_quiet:
  "token_file w' = token_file w \<Longrightarrow> quiet role (new_events w w') \<Longrightarrow> session_shape role w account error w'"
  by (simp add: session_shape_def)

lemma session_shape_attempt:
  assumes "SERVERS w account = Some config" and "use_oauth config"
    and "load_tokens w = Inr tokens" and "getitem tokens ''access_token'' = Inr a1"
    and "s1 = generate_oauth2_string (fmt (fst (get_credentials w account))) (py_str w a1) False"
    and "out1 = authenticate w (trace w @ [Connect role (role = Read) (host role config) None]) role s1"
    and "w1 = log (Authenticate role s1 out1)
                 (log (Connect role (role = Read) (host role config) None) w)"
    and "case out1 of
             None \<Rightarrow> r = Inr None \<and> w2 = w1
           | Some e \<Rightarrow>
               if auth_error role e
               then retry role (without_refresh_token role (str_exn e)) w1
                      (fst (get_credentials w account)) = (r, w2)
               else r = Inl e \<and> w2 = w1"
    and "trace w' = trace w2 @ post" and "token_file w' = token_file w2" and "quiet role post"
    and "r \<noteq> Inr None \<longrightarrow> post = [] \<and> error = reported role r"
    and "r = Inr None \<and> role = Read \<longrightarrow> error = None"
  shows "session_shape role w account error w'"
  unfolding session_shape_def using assms by blast

lemma get_valid_access_token_ok:
  assumes "get_valid_access_token w = Inr (a, err)" and "\<not> truthy_str err"
  shows "\<exists>tokens. load_tokens w = Inr tokens \<and> getitem tokens ''access_token'' = Inr a"
  using assms
  by (auto simp: get_valid_access_token_def split: sum.splits if_splits bool.splits)

lemma get_valid_access_token_log [simp]:
  "get_valid_access_token (log ev w) = get_valid_access_token w"
  by (simp add: get_valid_access_token_def load_tokens_def)

lemma new_events_same [simp]: "new_events w w = []"
  by (simp add: new_events_def)

lemma new_events_log1 [simp]: "new_events w (log ev w) = [ev]"
  by (simp add: new_events_def)

lemma new_events_log2 [simp]: "new_events w (log ev2 (log ev1 w)) = [ev1, ev2]"
  by (simp add: new_events_def)

lemma read_try_shape:
  assumes run: "connect_imap_try w config (fst (get_credentials w account)) password = (r, w')"
    and cfg: "SERVERS w account = Some config"
    and err: "error = (case r of Inr (mail, x) \<Rightarrow> x | Inl e \<Rightarrow> reported Read (Inl e))"
  shows "session_shape Read w account error w'"
proof -
  let ?address = "fst (get_credentials w account)"
  let ?c = "Connect Read True (imap config)"
  let ?w0 = "log (?c (connect w (trace w) Read True (imap config))) w"
  show ?thesis
  proof (cases "connect w (trace w) Read True (imap config)")
    case (Some e)
    with run have "w' = ?w0" by (simp add: connect_imap_try_def Let_def)
    with Some show ?thesis by (intro session_shape_quiet) (simp_all add: quiet_def)
  next
    case None
    show ?thesis
    proof (cases "use_oauth config")
      case False
      with run None obtain ev where "w' = log ev ?w0" "\<exists>u p x. ev = Login Read u p x"
        by (auto simp: connect_imap_try_def Let_def split: option.splits)
      with None show ?thesis by (intro session_shape_quiet) (auto simp: quiet_def)
    next
      case True
      show ?thesis
      proof (cases "get_valid_access_token w")
        case (Inl e)
        with run None True have "w' = ?w0" by (simp add: connect_imap_try_def Let_def)
        with None show ?thesis by (intro session_shape_quiet) (simp_all add: quiet_def)
      next
        case (Inr p)
        then obtain a1 terr where g: "get_valid_access_token w = Inr (a1, terr)" by (cases p) auto
        show ?thesis
        proof (cases "truthy_str terr")
          case terr: True
          with run None True g have "w' = ?w0" by (simp add: connect_imap_try_def Let_def)
          with None show ?thesis by (intro session_shape_quiet) (simp_all add: quiet_def)
        next
          case ok: False
          from get_valid_access_token_ok [OF g ok] obtain tokens where
            l: "load_tokens w = Inr tokens" and a: "getitem tokens ''access_token'' = Inr a1" by blast
          let ?s1 = "generate_oauth2_string (fmt ?address) (py_str w a1) False"
          let ?out1 = "authenticate w (trace w @ [?c None]) Read ?s1"
          let ?w1 = "log (Authenticate Read ?s1 ?out1) (log (?c None) w)"
          have host: "host Read config = imap config" by (simp add: host_def)
          show ?thesis
          proof (cases ?out1)
            case out: None
            with run None True g ok have "w' = ?w1" "r = Inr (Some (IMAP4_SSL (imap config)), None)"
              by (simp_all add: connect_imap_try_def Let_def)
            with out err show ?thesis
              by (intro session_shape_attempt [OF cfg True l a refl refl refl, where post = "[]" and r = "Inr None" and ?w2.0 = ?w1])
                 (simp_all add: host quiet_def)
          next
            case out: (Some e)
            show ?thesis
            proof (cases "auth_error Read e")
              case False
              with run None True g ok out have "w' = ?w1" "r = Inl e"
                by (cases e; simp add: connect_imap_try_def Let_def)+
              with out err False show ?thesis
                by (intro session_shape_attempt [OF cfg True l a refl refl refl, where post = "[]" and r = "Inl e" and ?w2.0 = ?w1])
                   (simp_all add: host quiet_def)
            next
              case ae: True
              then obtain m where m: "e = IMAP4_error m" by (cases e) auto
              obtain r2 w2 where h: "imap_refresh ?w1 ?address m = (r2, w2)"
                by (cases "imap_refresh ?w1 ?address m") auto
              from run None True g ok out m h
              have "w' = w2" and rr: "r = (case r2 of Inl e \<Rightarrow> Inl e | Inr (Some x) \<Rightarrow> Inr (None, Some x)
                                           | Inr None \<Rightarrow> Inr (Some (IMAP4_SSL (imap config)), None))"
                by (auto simp: connect_imap_try_def Let_def split: sum.splits option.splits)
              moreover from rr err have "r2 \<noteq> Inr None \<longrightarrow> error = reported Read r2"
                 and "r2 = Inr None \<longrightarrow> error = None"
                by (auto split: sum.splits option.splits)
              ultimately show ?thesis using out m h
                by (intro session_shape_attempt [OF cfg True l a refl refl refl, where post = "[]" and r = r2 and ?w2.0 = w2])
                   (simp_all add: host quiet_def imap_refresh_retry)
            qed
          qed
        qed
      qed
    qed
  qed
qed

lemma retry_reports_failure:
  assumes "retry role fallback w address = (Inr (Some x), w')"
  shows "fallback = Inr (Some x) \<or> (\<exists>d. x = failure (JStr d))"
  using assms
  by (auto simp: retry_def Let_def split: sum.splits bool.splits prod.splits if_splits option.splits)

lemma deliver_shape:
  assumes "deliver w account from_addr msg = (r, w')"
  shows "\<exists>x. w' = log (SendMessage x) w
           \<and> (case r of Inl e \<Rightarrow> True | Inr result \<Rightarrow> getitem result ''success'' = Inr (JBool True))"
  using assms
  by (cases msg) (auto simp: deliver_def Let_def split: option.splits)

lemma send_error_failure [simp]: "send_error (Inr (failure d)) = Some (failure d)"
  by (simp add: send_error_def failure_def)

lemma send_error_Inl [simp]: "send_error (Inl e) = reported Send (Inl e)"
  by (simp add: send_error_def)

lemma send_try_shape:
  assumes run: "send_email_try w config account (fst (get_credentials w account)) password msg = (r, w')"
    and cfg: "SERVERS w account = Some config"
  shows "session_shape Send w account (send_error r) w'"
proof -
  let ?address = "fst (get_credentials w account)"
  show ?thesis
  proof (cases "use_oauth config")
    case False
    let ?c = "Connect Send (use_ssl_smtp config) (smtp config)"
    let ?w0 = "log (?c (connect w (trace w) Send (use_ssl_smtp config) (smtp config))) w"
    show ?thesis
    proof (cases "connect w (trace w) Send (use_ssl_smtp config) (smtp config)")
      case (Some e)
      with run False have "w' = ?w0" by (simp add: send_email_try_def Let_def)
      with Some show ?thesis by (intro session_shape_quiet) (simp_all add: quiet_def)
    next
      case None
      let ?l = "Login Send ?address password"
      let ?w1 = "log (?l (login w (trace ?w0) Send ?address password)) ?w0"
      show ?thesis
      proof (cases "login w (trace ?w0) Send ?address password")
        case (Some e)
        with run False None have "w' = ?w1" by (simp add: send_email_try_def Let_def)
        with None Some show ?thesis by (intro session_shape_quiet) (simp_all add: quiet_def)
      next
        case ok: None
        with run False None have "deliver ?w1 account ?address msg = (r, w')"
          by (simp add: send_email_try_def Let_def)
        from deliver_shape [OF this] obtain x where "w' = log (SendMessage x) ?w1" by blast
        with None ok show ?thesis
          by (intro session_shape_quiet) (simp_all add: quiet_def new_events_def)
      qed
    qed
  next
    case True
    show ?thesis
    proof (cases "get_valid_access_token w")
      case (Inl e)
      with run True have "w' = w" by (simp add: send_email_try_def)
      then show ?thesis by (intro session_shape_quiet) (simp_all add: quiet_def)
    next
      case (Inr p)
      then obtain a1 terr where g: "get_valid_access_token w = Inr (a1, terr)" by (cases p) auto
      show ?thesis
      proof (cases "truthy_str terr")
        case terr: True
        with run True g have "w' = w" by (simp add: send_email_try_def)
        then show ?thesis by (intro session_shape_quiet) (simp_all add: quiet_def)
      next
        case ok: False
        from get_valid_access_token_ok [OF g ok] obtain tokens where
          l: "load_tokens w = Inr tokens" and a: "getitem tokens ''access_token'' = Inr a1" by blast
        let ?c = "Connect Send False (smtp config)"
        let ?w0 = "log (?c (connect w (trace w) Send False (smtp config))) w"
        show ?thesis
        proof (cases "connect w (trace w) Send False (smtp config)")
          case (Some e)
          with run True g ok have "w' = ?w0" by (simp add: send_email_try_def Let_def)
          with Some show ?thesis by (intro session_shape_quiet) (simp_all add: quiet_def)
        next
          case None
          let ?s1 = "generate_oauth2_string (fmt ?address) (py_str w a1) False"
          let ?out1 = "authenticate w (trace w @ [?c None]) Send ?s1"
          let ?w1 = "log (Authenticate Send ?s1 ?out1) (log (?c None) w)"
          have host: "host Send config = smtp config" by (simp add: host_def)
          show ?thesis
          proof (cases ?out1)
            case out: None
            with run None True g ok have "deliver ?w1 account ?address msg = (r, w')"
              by (simp add: send_email_try_def Let_def)
            from deliver_shape [OF this] obtain x where "w' = log (SendMessage x) ?w1" by blast
            with out show ?thesis
              by (intro session_shape_attempt [OF cfg True l a refl refl refl,
                    where post = "[SendMessage x]" and r = "Inr None" and ?w2.0 = ?w1])
                 (simp_all add: host quiet_def)
          next
            case out: (Some e)
            show ?thesis
            proof (cases "auth_error Send e")
              case False
              with run None True g ok out have "w' = ?w1" "r = Inl e"
                by (cases e; simp add: send_email_try_def Let_def)+
              with out False show ?thesis
                by (intro session_shape_attempt [OF cfg True l a refl refl refl,
                      where post = "[]" and r = "Inl e" and ?w2.0 = ?w1])
                   (simp_all add: host quiet_def)
            next
              case ae: True
              then obtain m where m: "e = SMTPAuthenticationError m" by (cases e) auto
              obtain r2 w2 where h: "smtp_refresh ?w1 ?address m = (r2, w2)"
                by (cases "smtp_refresh ?w1 ?address m") auto
              show ?thesis
              proof (cases "r2 = Inr None")
                case True2: True
                with run None True g ok out m h have "deliver w2 account ?address msg = (r, w')"
                  by (simp add: send_email_try_def Let_def)
                from deliver_shape [OF this] obtain x where "w' = log (SendMessage x) w2" by blast
                with out m h True2 show ?thesis
                  by (intro session_shape_attempt [OF cfg True l a refl refl refl,
                        where post = "[SendMessage x]" and r = r2 and ?w2.0 = w2])
                     (simp_all add: host quiet_def smtp_refresh_retry)
              next
                case False
                with run None True g ok out m h
                have w: "w' = w2" and rr: "r = (case r2 of Inl e \<Rightarrow> Inl e | Inr x \<Rightarrow> Inr (the x))"
                  by (auto simp: send_email_try_def Let_def split: sum.splits option.splits)
                have "send_error r = reported Send r2"
                proof (cases r2)
                  case (Inl e)
                  with rr show ?thesis by simp
                next
                  case (Inr x)
                  with False obtain y where y: "x = Some y" by (cases x) auto
                  with h Inr retry_reports_failure [of Send "Inl (SMTPAuthenticationError m)" ?w1 ?address y w2]
                  obtain d where "y = failure (JStr d)" by (auto simp: smtp_refresh_retry)
                  with rr Inr y show ?thesis by simp
                qed
                with w out m h False show ?thesis
                  by (intro session_shape_attempt [OF cfg True l a refl refl refl,
                        where post = "[]" and r = r2 and ?w2.0 = w2])
                     (simp_all add: host quiet_def smtp_refresh_retry)
              qed
            qed
          qed
        qed
      qed
    qed
  qed
qed

lemma open_session_shape:
  assumes "open_session role w account msg = (error, w')"
  shows "session_shape role w account error w'"
proof (cases "SERVERS w account")
  case None
  with assms have "w' = w"
    by (cases role) (auto simp: open_session_def connect_imap_def send_email_def)
  then show ?thesis by (intro session_shape_quiet) (simp_all add: quiet_def)
next
  case (Some config)
  obtain address password cerr where g: "get_credentials w account = (address, password, cerr)"
    by (cases "get_credentials w account") auto
  show ?thesis
  proof (cases "host role config = [] \<or> truthy_str cerr")
    case True
    with assms Some g have "w' = w"
      by (cases role)
         (auto simp: open_session_def connect_imap_def send_email_def host_def split: if_splits)
    then show ?thesis by (intro session_shape_quiet) (simp_all add: quiet_def)
  next
    case False
    show ?thesis
    proof (cases role)
      case Read
      obtain r w2 where t: "connect_imap_try w config (fst (get_credentials w account)) password = (r, w2)"
        by (cases "connect_imap_try w config (fst (get_credentials w account)) password") auto
      with assms Some g False Read
      have "w' = w2" "error = (case r of Inr (mail, x) \<Rightarrow> x | Inl e \<Rightarrow> reported Read (Inl e))"
        by (auto simp: open_session_def connect_imap_def host_def split: sum.splits exn.splits)
      with read_try_shape [OF t Some] Read show ?thesis by simp
    next
      case Send
      obtain r w2 where t: "send_email_try w config account (fst (get_credentials w account)) password msg = (r, w2)"
        by (cases "send_email_try w config account (fst (get_credentials w account)) password msg") auto
      with assms Some g False Send
      have "w' = w2" "error = send_error r"
        by (auto simp: open_session_def send_email_def host_def send_error_def failure_def
              split: sum.splits exn.splits)
      with send_try_shape [OF t Some] Send show ?thesis by simp
    qed
  qed
qed

lemma handler_shape_extends:
  assumes "handler_shape role w address r w'"
  shows "\<exists>evs. trace w' = trace w @ evs"
  using assms unfolding handler_shape_def by auto

lemma without_refresh_token_raises [simp]: "without_refresh_token role m \<noteq> Inr None"
  by (cases role) simp_all

lemma reported_Some: "r \<noteq> Inr None \<Longrightarrow> reported role r \<noteq> None"
  by (cases "(role, r)" rule: reported.cases) auto

lemma quiet_filters:
  assumes "quiet role evs"
  shows "filter (is_attempt role) evs = []" "filter is_exchange evs = []" "filter is_write evs = []"
  using assms by (auto simp: quiet_def filter_empty_conv)

lemma first_attempt_run:
  assumes run: "open_session role w account msg = (error, w')"
    and first: "filter (is_attempt role) (new_events w w') = Authenticate role s out # rest"
  obtains config tokens a1 w1 r w2 mid post where
    "SERVERS w account = Some config" and "use_oauth config"
    and "load_tokens w = Inr tokens" and "getitem tokens ''access_token'' = Inr a1"
    and "s = generate_oauth2_string (fmt (fst (get_credentials w account))) (py_str w a1) False"
    and "w1 = log (Authenticate role s out) (log (Connect role (role = Read) (host role config) None) w)"
    and "case out of
           None \<Rightarrow> r = Inr None \<and> w2 = w1
         | Some e \<Rightarrow>
             if auth_error role e
             then retry role (without_refresh_token role (str_exn e)) w1
                    (fst (get_credentials w account)) = (r, w2)
             else r = Inl e \<and> w2 = w1"
    and "trace w2 = trace w1 @ mid"
    and "new_events w w' = Connect role (role = Read) (host role config) None
                             # Authenticate role s out # mid @ post"
    and "rest = filter (is_attempt role) mid"
    and "token_file w' = token_file w2" and "quiet role post"
    and "r \<noteq> Inr None \<longrightarrow> post = [] \<and> error = reported role r"
    and "r = Inr None \<and> role = Read \<longrightarrow> error = None"
proof -
  have nq: "\<not> quiet role (new_events w w')"
    using first quiet_filters(1) [of role "new_events w w'"] by auto
  from open_session_shape [OF run] nq
  have "\<exists>config tokens a1 s1 out1 w1 r w2 post.
         SERVERS w account = Some config \<and> use_oauth config
       \<and> load_tokens w = Inr tokens \<and> getitem tokens ''access_token'' = Inr a1
       \<and> s1 = generate_oauth2_string (fmt (fst (get_credentials w account))) (py_str w a1) False
       \<and> out1 = authenticate w (trace w @ [Connect role (role = Read) (host role config) None]) role s1
       \<and> w1 = log (Authenticate role s1 out1)
                 (log (Connect role (role = Read) (host role config) None) w)
       \<and> (case out1 of
             None \<Rightarrow> r = Inr None \<and> w2 = w1
           | Some e \<Rightarrow>
               if auth_error role e
               then retry role (without_refresh_token role (str_exn e)) w1
                      (fst (get_credentials w account)) = (r, w2)
               else r = Inl e \<and> w2 = w1)
       \<and> trace w' = trace w2 @ post \<and> token_file w' = token_file w2 \<and> quiet role post
       \<and> (r \<noteq> Inr None \<longrightarrow> post = [] \<and> error = reported role r)
       \<and> (r = Inr None \<and> role = Read \<longrightarrow> error = None)"
    unfolding session_shape_def by blast
  then obtain config tokens a1 s1 out1 w1 r w2 post where
    c: "SERVERS w account = Some config" "use_oauth config"
      "load_tokens w = Inr tokens" "getitem tokens ''access_token'' = Inr a1"
    and s1: "s1 = generate_oauth2_string (fmt (fst (get_credentials w account))) (py_str w a1) False"
    and w1: "w1 = log (Authenticate role s1 out1)
                 (log (Connect role (role = Read) (host role config) None) w)"
    and h: "case out1 of
             None \<Rightarrow> r = Inr None \<and> w2 = w1
           | Some e \<Rightarrow>
               if auth_error role e
               then retry role (without_refresh_token role (str_exn e)) w1
                      (fst (get_credentials w account)) = (r, w2)
               else r = Inl e \<and> w2 = w1"
    and t: "trace w' = trace w2 @ post" "token_file w' = token_file w2" "quiet role post"
    and e: "r \<noteq> Inr None \<longrightarrow> post = [] \<and> error = reported role r"
      "r = Inr None \<and> role = Read \<longrightarrow> error = None"
    by blast
  have "\<exists>mid. trace w2 = trace w1 @ mid"
  proof (cases out1)
    case None
    with h show ?thesis by simp
  next
    case (Some e)
    show ?thesis
    proof (cases "auth_error role e")
      case True
      with h Some have "retry role (without_refresh_token role (str_exn e)) w1
                      (fst (get_credentials w account)) = (r, w2)" by simp
      from handler_shape_extends [OF retry_shape [OF this]] show ?thesis by simp
    next
      case False
      with h Some show ?thesis by simp
    qed
  qed
  then obtain mid where mid: "trace w2 = trace w1 @ mid" by blast
  with t w1 have ev: "new_events w w' = Connect role (role = Read) (host role config) None
                             # Authenticate role s1 out1 # mid @ post"
    by (simp add: new_events_def)
  with first quiet_filters(1) [OF t(3)]
  have "s = s1" "out = out1" "rest = filter (is_attempt role) mid" by simp_all
  with c s1 w1 h mid ev t e that show thesis by blast
qed

subsection \<open>A first attempt that succeeds\<close>

text \<open>
  C7. For every session open, in either role, whose first authentication attempt
  succeeds: there is no other attempt, no exchange with the token endpoint and no write
  of the token file in the run, and the token file is as it was.
\<close>

theorem no_refresh_after_success:
  assumes "open_session role w account msg = (error, w')"
    and "filter (is_attempt role) (new_events w w') = Authenticate role s None # rest"
  shows "rest = [] \<and> filter is_exchange (new_events w w') = []
       \<and> filter is_write (new_events w w') = [] \<and> token_file w' = token_file w"
proof -
  from assms obtain config w1 r w2 mid post where
      "w1 = log (Authenticate role s None) (log (Connect role (role = Read) (host role config) None) w)"
    and "case None :: exn option of
           None \<Rightarrow> r = Inr None \<and> w2 = w1
         | Some e \<Rightarrow>
             if auth_error role e
             then retry role (without_refresh_token role (str_exn e)) w1
                    (fst (get_credentials w account)) = (r, w2)
             else r = Inl e \<and> w2 = w1"
    and "trace w2 = trace w1 @ mid"
    and "new_events w w' = Connect role (role = Read) (host role config) None
                             # Authenticate role s None # mid @ post"
    and "rest = filter (is_attempt role) mid"
    and "token_file w' = token_file w2" and "quiet role post"
    by (rule first_attempt_run)
  then show ?thesis by (simp add: quiet_filters)
qed

text \<open>
  The server accepts the stored access token, in the read role and in the send role:
  each run has its one attempt, and the token file is as it was.
\<close>

lemma accepted_read_run:
  "open_session Read (hotmail_world accepted_A2 invalid_grant) ''hotmail'' hello
     = (None, (hotmail_world accepted_A2 invalid_grant)
          \<lparr>trace := [Connect Read True ''outlook.office365.com'' None,
                     Authenticate Read (generate_oauth2_string ''me@hotmail.com'' ''A2'' False) None]\<rparr>)"
  by (simp add: run_defs accepted_A2_def)

lemma accepted_send_run:
  "open_session Send (hotmail_world accepted_A2 invalid_grant) ''hotmail'' hello
     = (None, (hotmail_world accepted_A2 invalid_grant)
          \<lparr>trace := [Connect Send False ''smtp.office365.com'' None,
                     Authenticate Send (generate_oauth2_string ''me@hotmail.com'' ''A2'' False) None,
                     SendMessage None]\<rparr>)"
  by (simp add: run_defs accepted_A2_def)

theorem no_refresh_after_success_witness:
  "open_session Read (hotmail_world accepted_A2 invalid_grant) ''hotmail'' hello
     = (None, (hotmail_world accepted_A2 invalid_grant)
          \<lparr>trace := [Connect Read True ''outlook.office365.com'' None,
                     Authenticate Read (generate_oauth2_string ''me@hotmail.com'' ''A2'' False) None]\<rparr>)
   \<and> token_file (snd (open_session Read (hotmail_world accepted_A2 invalid_grant) ''hotmail'' hello))
      = Inr (JObj [(''access_token'', JStr ''A2'')])
   \<and> open_session Send (hotmail_world accepted_A2 invalid_grant) ''hotmail'' hello
     = (None, (hotmail_world accepted_A2 invalid_grant)
          \<lparr>trace := [Connect Send False ''smtp.office365.com'' None,
                     Authenticate Send (generate_oauth2_string ''me@hotmail.com'' ''A2'' False) None,
                     SendMessage None]\<rparr>)
   \<and> token_file (snd (open_session Send (hotmail_world accepted_A2 invalid_grant) ''hotmail'' hello))
      = Inr (JObj [(''access_token'', JStr ''A2'')])"
proof -
  let ?w = "hotmail_world accepted_A2 invalid_grant"
  let ?s = "generate_oauth2_string ''me@hotmail.com'' ''A2'' False"
  let ?r = "?w\<lparr>trace := [Connect Read True ''outlook.office365.com'' None, Authenticate Read ?s None]\<rparr>"
  let ?t = "?w\<lparr>trace := [Connect Send False ''smtp.office365.com'' None, Authenticate Send ?s None,
                          SendMessage None]\<rparr>"
  have fr: "filter (is_attempt Read) (new_events ?w ?r) = Authenticate Read ?s None # []"
    and fs: "filter (is_attempt Send) (new_events ?w ?t) = Authenticate Send ?s None # []"
    by (simp_all add: new_events_def hotmail_world_def idle_world_def)
  have "token_file ?w = Inr (JObj [(''access_token'', JStr ''A2'')])"
    by (simp add: hotmail_world_def accepted_A2_def)
  with no_refresh_after_success [OF accepted_read_run fr]
       no_refresh_after_success [OF accepted_send_run fs]
       accepted_read_run accepted_send_run
  show ?thesis by simp
qed

subsection \<open>A rejected token and no refresh token\<close>






subsection \<open>Refresh and retry\<close>

lemma load_tokens_log [simp]: "load_tokens (log ev w) = load_tokens w"
  by (simp add: load_tokens_def)

lemma refresh_request_log [simp]: "refresh_request (log ev w) rt = refresh_request w rt"
  by (simp add: refresh_request_def AZURE_CLIENT_ID_def AZURE_TENANT_ID_def environ_get_def)

lemma stamped_log [simp]: "stamped (log ev w) h resp = stamped w h resp"
  by (simp add: stamped_def log_def)

lemma stamped_access_token:
  "getitem (stamped w h resp) ''access_token'' = getitem (JObj resp) ''access_token''"
  by (simp add: stamped_def update_conv')

lemma reported_Inl [simp]: "reported role (Inl e) \<noteq> None"
  by (rule reported_Some) simp

lemma reported_Inl_ex [simp]: "\<exists>x. reported role (Inl e) = Some x"
  using reported_Inl [of role e] by (cases "reported role (Inl e)") auto

lemma quiet_relevant:
  assumes "quiet role evs"
  shows "filter (\<lambda>ev. is_attempt role ev \<or> is_exchange ev \<or> is_write ev) evs = []"
    and "TokenFileWrite x \<notin> set evs"
  using assms by (auto simp: quiet_def filter_empty_conv)

lemma oracles_log [simp]:
  "urlopen (log ev w) = urlopen w" "makedirs (log ev w) = makedirs w"
  "write_file (log ev w) = write_file w" "clock (log ev w) = clock w"
  by (simp_all add: log_def)

lemma client_log [simp]:
  "AZURE_CLIENT_ID (log ev w) = AZURE_CLIENT_ID w" "AZURE_TENANT_ID (log ev w) = AZURE_TENANT_ID w"
  by (simp_all add: AZURE_CLIENT_ID_def AZURE_TENANT_ID_def environ_get_def)

lemma refresh_succeeds_log [simp]:
  "refresh_succeeds (log ev w) h rt resp a2 = refresh_succeeds w h rt resp a2"
  by (simp add: refresh_succeeds_def)

lemma refresh_succeeds_unique:
  assumes "refresh_succeeds w h rt resp a2" and "refresh_succeeds w h rt resp' a2'"
  shows "resp' = resp \<and> a2' = a2"
  using assms by (auto simp: refresh_succeeds_def)

lemma save_tokens_written:
  assumes "save_tokens w t = (Inr saved, w')"
  shows "makedirs w (trace w) = None \<and> write_file w (trace w) = None"
  using assms by (cases t) (auto simp: save_tokens_def split: option.splits)

lemma refresh_access_token_granted:
  assumes "AZURE_CLIENT_ID w \<noteq> []" and "AZURE_TENANT_ID w \<noteq> []"
    and "urlopen w (trace w) (refresh_request w rt) = Inr (JObj resp)"
    and "post = TokenPost (refresh_request w rt) (Inr (JObj resp))"
    and "makedirs w (trace w @ [post]) = None" and "write_file w (trace w @ [post]) = None"
    and "saved = stamped w (trace w @ [post]) resp"
  shows "refresh_access_token w rt
           = (Inr (saved, None),
              w\<lparr>token_file := Inr saved, trace := trace w @ [post, TokenFileWrite saved]\<rparr>)"
  using assms
  by (simp add: refresh_access_token_def save_tokens_def log_def refresh_request_def stamped_def
        Let_def)

lemma refresh_access_token_refused:
  assumes run: "refresh_access_token w rt = (r, w')"
    and no: "\<not> (\<exists>resp. AZURE_CLIENT_ID w \<noteq> [] \<and> AZURE_TENANT_ID w \<noteq> []
                 \<and> urlopen w (trace w) (refresh_request w rt) = Inr (JObj resp)
                 \<and> makedirs w (trace w @ [TokenPost (refresh_request w rt) (Inr (JObj resp))]) = None
                 \<and> write_file w (trace w @ [TokenPost (refresh_request w rt) (Inr (JObj resp))]) = None)"
  shows "(trace w' = trace w \<or> (\<exists>req resp. trace w' = trace w @ [TokenPost req resp]))
       \<and> ((\<exists>e. r = Inl e) \<or> (\<exists>m. m \<noteq> [] \<and> r = Inr (JNull, Some m)))"
proof (cases "AZURE_CLIENT_ID w \<noteq> [] \<and> AZURE_TENANT_ID w \<noteq> []")
  case False
  with run show ?thesis by (auto simp: refresh_access_token_def)
next
  case True
  let ?req = "refresh_request w rt"
  let ?w1 = "log (TokenPost ?req (urlopen w (trace w) ?req)) w"
  have fail: "(\<exists>e'. token_failure ''Token refresh failed: '' e = Inl e')
       \<or> (\<exists>m. m \<noteq> [] \<and> token_failure ''Token refresh failed: '' e = Inr (JNull, Some m))" for e
    using token_failure_shape [of "''Token refresh failed: ''" e] by auto
  show ?thesis
  proof (cases "urlopen w (trace w) ?req")
    case (Inl e)
    with True run have "w' = ?w1" "r = token_failure ''Token refresh failed: '' e"
      by (auto simp: refresh_access_token_def refresh_request_def Let_def)
    with fail [of e] show ?thesis by auto
  next
    case (Inr tokens)
    obtain r2 w2 where s: "save_tokens ?w1 tokens = (r2, w2)"
      by (cases "save_tokens ?w1 tokens") auto
    show ?thesis
    proof (cases r2)
      case e: (Inl e)
      with save_tokens_shape [OF s] have "w2 = ?w1" by auto
      with True run Inr s e have "w' = ?w1" "r = token_failure ''Token refresh failed: '' e"
        by (auto simp: refresh_access_token_def refresh_request_def Let_def)
      with fail [of e] show ?thesis by auto
    next
      case sv: (Inr saved)
      with save_tokens_shape [OF s] obtain kvs where k: "tokens = JObj kvs" by auto
      from save_tokens_written [OF s [unfolded sv]] Inr k
      have "makedirs w (trace w @ [TokenPost ?req (Inr (JObj kvs))]) = None"
        "write_file w (trace w @ [TokenPost ?req (Inr (JObj kvs))]) = None"
        by simp_all
      with no True Inr k show ?thesis by blast
    qed
  qed
qed

lemma retry_refresh:
  assumes "load_tokens w = Inr (JObj kvs)" and "map_of kvs ''refresh_token'' = Some rt"
  shows "retry role fallback w address =
     (case refresh_access_token w rt of
        (Inl e, w2) \<Rightarrow> (Inl e, w2)
      | (Inr (new_tokens, refresh_error), w2) \<Rightarrow>
         if truthy_str refresh_error then
           (Inr (Some (failure (JStr (''Token refresh failed: '' @ fmt refresh_error)))), w2)
         else
           (case getitem new_tokens ''access_token'' of
              Inl e \<Rightarrow> (Inl e, w2)
            | Inr access_token \<Rightarrow>
               let auth_string =
                     generate_oauth2_string (fmt address) (py_str w access_token) False;
                   r = authenticate w (trace w2) role auth_string;
                   w3 = log (Authenticate role auth_string r) w2
               in (case r of
                     Some e \<Rightarrow> (Inl e, w3)
                   | None \<Rightarrow> (Inr None, w3))))"
proof -
  from assms(2) have "kvs \<noteq> []" "''refresh_token'' \<in> fst ` set kvs"
    by (auto dest: map_of_SomeD intro: rev_image_eqI)
  with assms show ?thesis by (simp add: retry_def)
qed

lemma retry_succeeds:
  assumes l: "load_tokens w = Inr (JObj kvs)" and rt: "map_of kvs ''refresh_token'' = Some rt"
    and ok: "refresh_succeeds w (trace w) rt resp a2"
    and post: "post = TokenPost (refresh_request w rt) (Inr (JObj resp))"
    and saved: "saved = stamped w (trace w @ [post]) resp"
    and s2: "s2 = generate_oauth2_string (fmt address) (py_str w a2) False"
    and out2: "out2 = authenticate w (trace w @ [post, TokenFileWrite saved]) role s2"
  shows "retry role fallback w address
           = ((case out2 of None \<Rightarrow> Inr None | Some e \<Rightarrow> Inl e),
              w\<lparr>token_file := Inr saved,
                trace := trace w @ [post, TokenFileWrite saved, Authenticate role s2 out2]\<rparr>)"
proof -
  from ok have c: "AZURE_CLIENT_ID w \<noteq> []" "AZURE_TENANT_ID w \<noteq> []"
    and u: "urlopen w (trace w) (refresh_request w rt) = Inr (JObj resp)"
    and m: "makedirs w (trace w @ [TokenPost (refresh_request w rt) (Inr (JObj resp))]) = None"
      "write_file w (trace w @ [TokenPost (refresh_request w rt) (Inr (JObj resp))]) = None"
    and a: "map_of resp ''access_token'' = Some a2"
    by (simp_all add: refresh_succeeds_def)
  have r: "refresh_access_token w rt
           = (Inr (saved, None),
              w\<lparr>token_file := Inr saved, trace := trace w @ [post, TokenFileWrite saved]\<rparr>)"
    using c u post m saved by (intro refresh_access_token_granted) simp_all
  have g: "getitem saved ''access_token'' = Inr a2"
    using a saved by (simp add: stamped_access_token)
  show ?thesis
    by (simp add: retry_refresh [OF l rt] r g Let_def log_def s2 out2 split: option.splits)
qed

lemma retry_fails:
  assumes l: "load_tokens w = Inr (JObj kvs)" and rt: "map_of kvs ''refresh_token'' = Some rt"
    and run: "retry role fallback w address = (r, w')"
    and no: "\<not> (\<exists>resp a2. refresh_succeeds w (trace w) rt resp a2)"
  shows "r \<noteq> Inr None
       \<and> (\<exists>mid. trace w' = trace w @ mid \<and> filter (is_attempt role) mid = []
              \<and> length (filter is_exchange mid) \<le> 1 \<and> length (filter is_write mid) \<le> 1)"
proof -
  obtain r2 w2 where x: "refresh_access_token w rt = (r2, w2)"
    by (cases "refresh_access_token w rt") auto
  show ?thesis
  proof (cases "\<exists>resp. AZURE_CLIENT_ID w \<noteq> [] \<and> AZURE_TENANT_ID w \<noteq> []
                 \<and> urlopen w (trace w) (refresh_request w rt) = Inr (JObj resp)
                 \<and> makedirs w (trace w @ [TokenPost (refresh_request w rt) (Inr (JObj resp))]) = None
                 \<and> write_file w (trace w @ [TokenPost (refresh_request w rt) (Inr (JObj resp))]) = None")
    case True
    then obtain resp where c: "AZURE_CLIENT_ID w \<noteq> []" "AZURE_TENANT_ID w \<noteq> []"
      and u: "urlopen w (trace w) (refresh_request w rt) = Inr (JObj resp)"
      and m: "makedirs w (trace w @ [TokenPost (refresh_request w rt) (Inr (JObj resp))]) = None"
        "write_file w (trace w @ [TokenPost (refresh_request w rt) (Inr (JObj resp))]) = None"
      by blast
    let ?post = "TokenPost (refresh_request w rt) (Inr (JObj resp))"
    let ?saved = "stamped w (trace w @ [?post]) resp"
    have x': "refresh_access_token w rt
           = (Inr (?saved, None),
              w\<lparr>token_file := Inr ?saved, trace := trace w @ [?post, TokenFileWrite ?saved]\<rparr>)"
      using c u m by (intro refresh_access_token_granted) simp_all
    from no c u m have "map_of resp ''access_token'' = None"
      by (cases "map_of resp ''access_token''") (auto simp: refresh_succeeds_def)
    then obtain e where g: "getitem ?saved ''access_token'' = Inl e"
      by (simp add: stamped_access_token)
    from run have "r = Inl e"
      "w' = w\<lparr>token_file := Inr ?saved, trace := trace w @ [?post, TokenFileWrite ?saved]\<rparr>"
      by (simp_all add: retry_refresh [OF l rt] x' g)
    then show ?thesis by simp
  next
    case False
    from refresh_access_token_refused [OF x False]
    have t: "trace w2 = trace w \<or> (\<exists>req resp. trace w2 = trace w @ [TokenPost req resp])"
      and r2: "(\<exists>e. r2 = Inl e) \<or> (\<exists>m. m \<noteq> [] \<and> r2 = Inr (JNull, Some m))"
      by simp_all
    from run r2 have "r \<noteq> Inr None" "w' = w2"
      by (auto simp: retry_refresh [OF l rt] x)
    with t show ?thesis by auto
  qed
qed

text \<open>
  C1, as amended. For every session open, in either role, where the token file holds a
  dict with a refresh token and the first authentication attempt fails with the role's
  authentication error: the first attempt was made with the stored access token. The
  history \<open>h\<close> is that of the moment when the handler runs: the connection and the
  first attempt. If the refresh succeeds at \<open>h\<close> (the client is configured, the
  endpoint answers with a dict that has an access token, the token file can be
  written), the run has exactly these attempts, exchanges and writes, in this order: the
  first attempt, one exchange of the stored refresh token, the write of the response
  with its \<^verbatim>\<open>saved_at\<close> stamp, and a second attempt with the access token of the
  response, whose outcome is the server's answer. The token file then holds the dict
  written. If the second attempt fails, the run fails and the attempt is its last
  event; if it succeeds in the read role, the run succeeds. If the refresh does not
  succeed at \<open>h\<close>, the first attempt is the only one, the run fails, and it has at most
  one exchange and at most one write.
\<close>

theorem refresh_and_retry:
  assumes run: "open_session role w account msg = (error, w')"
    and stored: "token_file w = Inr (JObj kvs)"
    and rt: "map_of kvs ''refresh_token'' = Some rt"
    and first: "filter (is_attempt role) (new_events w w') = Authenticate role s1 (Some e1) # rest"
    and ae: "auth_error role e1"
    and cfg: "SERVERS w account = Some config"
    and h: "h = trace w @ [Connect role (role = Read) (host role config) None,
                           Authenticate role s1 (Some e1)]"
  shows "(\<exists>a1. map_of kvs ''access_token'' = Some a1
            \<and> s1 = generate_oauth2_string (fmt (fst (get_credentials w account))) (py_str w a1) False)
       \<and> (\<forall>resp a2.
             refresh_succeeds w h rt resp a2 \<longrightarrow>
               (\<exists>saved s2 out2.
                   saved = AList.update ''saved_at''
                             (JStr (isoformat (clock w
                                (h @ [TokenPost (refresh_request w rt) (Inr (JObj resp))])))) resp
                 \<and> s2 = generate_oauth2_string (fmt (fst (get_credentials w account)))
                          (py_str w a2) False
                 \<and> filter (\<lambda>ev. is_attempt role ev \<or> is_exchange ev \<or> is_write ev) (new_events w w')
                     = [Authenticate role s1 (Some e1),
                        TokenPost (refresh_request w rt) (Inr (JObj resp)),
                        TokenFileWrite (JObj saved),
                        Authenticate role s2 out2]
                 \<and> out2 = authenticate w
                          (h @ [TokenPost (refresh_request w rt) (Inr (JObj resp)),
                                TokenFileWrite (JObj saved)]) role s2
                 \<and> token_file w' = Inr (JObj saved) \<and> load_tokens w' = Inr (JObj saved)
                 \<and> (out2 \<noteq> None \<longrightarrow>
                       error \<noteq> None \<and> last (new_events w w') = Authenticate role s2 out2)
                 \<and> (out2 = None \<and> role = Read \<longrightarrow> error = None)))
       \<and> (\<not> (\<exists>resp a2. refresh_succeeds w h rt resp a2) \<longrightarrow>
             rest = [] \<and> error \<noteq> None
           \<and> length (filter is_exchange (new_events w w')) \<le> 1
           \<and> length (filter is_write (new_events w w')) \<le> 1)"
    (is "?P1 \<and> ?P2 \<and> ?P3")
proof -
  let ?address = "fst (get_credentials w account)"
  from run first obtain config' tokens a1 w1 r w2 mid post where
      c: "SERVERS w account = Some config'"
    and l: "load_tokens w = Inr tokens" and a1: "getitem tokens ''access_token'' = Inr a1"
    and s1: "s1 = generate_oauth2_string (fmt ?address) (py_str w a1) False"
    and w1: "w1 = log (Authenticate role s1 (Some e1))
                    (log (Connect role (role = Read) (host role config') None) w)"
    and hd: "case Some e1 of
           None \<Rightarrow> r = Inr None \<and> w2 = w1
         | Some e \<Rightarrow>
             if auth_error role e
             then retry role (without_refresh_token role (str_exn e)) w1 ?address = (r, w2)
             else r = Inl e \<and> w2 = w1"
    and t: "trace w2 = trace w1 @ mid"
    and ev: "new_events w w' = Connect role (role = Read) (host role config') None
                             # Authenticate role s1 (Some e1) # mid @ post"
    and rest: "rest = filter (is_attempt role) mid"
    and f: "token_file w' = token_file w2" and q: "quiet role post"
    and err: "r \<noteq> Inr None \<longrightarrow> post = [] \<and> error = reported role r"
    and ok: "r = Inr None \<and> role = Read \<longrightarrow> error = None"
    by (rule first_attempt_run)
  from c cfg have cc: "config' = config" by simp
  with w1 h have h1: "trace w1 = h" by simp
  from l stored have tokens: "tokens = JObj kvs" by (simp add: load_tokens_def)
  with a1 have "map_of kvs ''access_token'' = Some a1" by (simp split: option.splits)
  with s1 have P1: ?P1 by simp
  from hd ae have retry: "retry role (without_refresh_token role (str_exn e1)) w1 ?address = (r, w2)"
    by simp
  have l1: "load_tokens w1 = Inr (JObj kvs)" using l tokens w1 by simp
  note qf = quiet_filters [OF q]
  have eq: "refresh_succeeds w1 (trace w1) rt resp a2 = refresh_succeeds w h rt resp a2" for resp a2
    unfolding h1 unfolding w1 by simp
  show ?thesis
  proof (cases "\<exists>resp a2. refresh_succeeds w h rt resp a2")
    case False
    then have "\<not> (\<exists>resp a2. refresh_succeeds w1 (trace w1) rt resp a2)"
      by (simp add: eq)
    from retry_fails [OF l1 rt retry this] t
    have r: "r \<noteq> Inr None" and m: "filter (is_attempt role) mid = []"
      "length (filter is_exchange mid) \<le> 1" "length (filter is_write mid) \<le> 1"
      by auto
    from r err have "error \<noteq> None" by (simp add: reported_Some)
    with False P1 m rest ev qf show ?thesis by simp
  next
    case True
    then obtain resp a2 where s: "refresh_succeeds w h rt resp a2" by blast
    let ?post = "TokenPost (refresh_request w rt) (Inr (JObj resp))"
    let ?saved = "AList.update ''saved_at'' (JStr (isoformat (clock w (h @ [?post])))) resp"
    let ?s2 = "generate_oauth2_string (fmt ?address) (py_str w a2) False"
    let ?out2 = "authenticate w (h @ [?post, TokenFileWrite (JObj ?saved)]) role ?s2"
    from s have s': "refresh_succeeds w1 (trace w1) rt resp a2" by (simp add: eq)
    have "retry role (without_refresh_token role (str_exn e1)) w1 ?address
           = ((case ?out2 of None \<Rightarrow> Inr None | Some e \<Rightarrow> Inl e),
              w1\<lparr>token_file := Inr (JObj ?saved),
                 trace := trace w1 @ [?post, TokenFileWrite (JObj ?saved),
                                      Authenticate role ?s2 ?out2]\<rparr>)"
      by (rule retry_succeeds [OF l1 rt s']) (simp_all add: w1 h cc stamped_def)
    with retry have r: "r = (case ?out2 of None \<Rightarrow> Inr None | Some e \<Rightarrow> Inl e)"
      and w2: "w2 = w1\<lparr>token_file := Inr (JObj ?saved),
                 trace := trace w1 @ [?post, TokenFileWrite (JObj ?saved),
                                      Authenticate role ?s2 ?out2]\<rparr>"
      by simp_all
    from w2 t have mid: "mid = [?post, TokenFileWrite (JObj ?saved), Authenticate role ?s2 ?out2]"
      by simp
    have x: "filter (\<lambda>ev. is_attempt role ev \<or> is_exchange ev \<or> is_write ev) (new_events w w')
               = [Authenticate role s1 (Some e1), ?post, TokenFileWrite (JObj ?saved),
                  Authenticate role ?s2 ?out2]"
      using ev mid quiet_relevant(1) [OF q] by simp
    have y: "token_file w' = Inr (JObj ?saved)" "load_tokens w' = Inr (JObj ?saved)"
      using f w2 by (simp_all add: load_tokens_def)
    have z: "?out2 \<noteq> None \<longrightarrow> error \<noteq> None \<and> last (new_events w w') = Authenticate role ?s2 ?out2"
      using r err ev mid by (auto simp: reported_Some)
    have u: "?out2 = None \<and> role = Read \<longrightarrow> error = None"
      using r ok by auto
    have P2: ?P2
    proof (intro allI impI)
      fix resp' a2'
      assume "refresh_succeeds w h rt resp' a2'"
      from refresh_succeeds_unique [OF s this] have "resp' = resp" "a2' = a2" by simp_all
      with x y z u
      show "\<exists>saved s2 out2.
                   saved = AList.update ''saved_at''
                             (JStr (isoformat (clock w
                                (h @ [TokenPost (refresh_request w rt) (Inr (JObj resp'))])))) resp'
                 \<and> s2 = generate_oauth2_string (fmt (fst (get_credentials w account)))
                          (py_str w a2') False
                 \<and> filter (\<lambda>ev. is_attempt role ev \<or> is_exchange ev \<or> is_write ev) (new_events w w')
                     = [Authenticate role s1 (Some e1),
                        TokenPost (refresh_request w rt) (Inr (JObj resp')),
                        TokenFileWrite (JObj saved),
                        Authenticate role s2 out2]
                 \<and> out2 = authenticate w
                          (h @ [TokenPost (refresh_request w rt) (Inr (JObj resp')),
                                TokenFileWrite (JObj saved)]) role s2
                 \<and> token_file w' = Inr (JObj saved) \<and> load_tokens w' = Inr (JObj saved)
                 \<and> (out2 \<noteq> None \<longrightarrow>
                       error \<noteq> None \<and> last (new_events w w') = Authenticate role s2 out2)
                 \<and> (out2 = None \<and> role = Read \<longrightarrow> error = None)"
        by blast
    qed
    from True have P3: ?P3 by simp
    from P1 P2 P3 show ?thesis by blast
  qed
qed

text \<open>
  Runs in which the first attempt fails and the token file has a refresh token: the
  endpoint returns \<^verbatim>\<open>A2\<close>, which the server accepts; it refuses the refresh token; it
  returns \<^verbatim>\<open>A3\<close>, which the server rejects as well. Each in the read role and in the
  send role.
\<close>

lemma refreshed_run:
  "open_session Read (hotmail_world stored_A1_R1 refreshed_A2_R2) ''hotmail'' hello
     = (None,
        (hotmail_world stored_A1_R1 refreshed_A2_R2)
          \<lparr>token_file := Inr (JObj [(''access_token'', JStr ''A2''), (''refresh_token'', JStr ''R2''),
                                    (''saved_at'', JStr ''2026-02-03T14:05:09'')]),
            trace := [Connect Read True ''outlook.office365.com'' None,
                      Authenticate Read (generate_oauth2_string ''me@hotmail.com'' ''A1'' False)
                        (Some (IMAP4_error ''AUTHENTICATE failed'')),
                      TokenPost (Refresh_token_grant ''client-1'' ''consumers'' (JStr ''R1''))
                        refreshed_A2_R2,
                      TokenFileWrite
                        (JObj [(''access_token'', JStr ''A2''), (''refresh_token'', JStr ''R2''),
                               (''saved_at'', JStr ''2026-02-03T14:05:09'')]),
                      Authenticate Read (generate_oauth2_string ''me@hotmail.com'' ''A2'' False) None]\<rparr>)"
  by (simp add: run_defs stored_A1_R1_def refreshed_A2_R2_def generate_oauth2_string_def
        isoformat_def pad2_def pad4_def digit_def)

lemma refused_run:
  "open_session Read (hotmail_world stored_A1_R1 invalid_grant) ''hotmail'' hello
     = (Some (failure (JStr ''Token refresh failed: Token refresh failed: invalid_grant'')),
        (hotmail_world stored_A1_R1 invalid_grant)
          \<lparr>trace := [Connect Read True ''outlook.office365.com'' None,
                      Authenticate Read (generate_oauth2_string ''me@hotmail.com'' ''A1'' False)
                        (Some (IMAP4_error ''AUTHENTICATE failed'')),
                      TokenPost (Refresh_token_grant ''client-1'' ''consumers'' (JStr ''R1''))
                        invalid_grant]\<rparr>)"
  by (simp add: run_defs stored_A1_R1_def invalid_grant_def generate_oauth2_string_def)

lemma refreshed_rejected_run:
  "open_session Read (hotmail_world stored_A1_R1 refreshed_A3) ''hotmail'' hello
     = (Some (AuthenticationFailed ''AUTHENTICATE failed''),
        (hotmail_world stored_A1_R1 refreshed_A3)
          \<lparr>token_file := Inr (JObj [(''access_token'', JStr ''A3''),
                                    (''saved_at'', JStr ''2026-02-03T14:05:09'')]),
            trace := [Connect Read True ''outlook.office365.com'' None,
                      Authenticate Read (generate_oauth2_string ''me@hotmail.com'' ''A1'' False)
                        (Some (IMAP4_error ''AUTHENTICATE failed'')),
                      TokenPost (Refresh_token_grant ''client-1'' ''consumers'' (JStr ''R1''))
                        refreshed_A3,
                      TokenFileWrite
                        (JObj [(''access_token'', JStr ''A3''),
                               (''saved_at'', JStr ''2026-02-03T14:05:09'')]),
                      Authenticate Read (generate_oauth2_string ''me@hotmail.com'' ''A3'' False)
                        (Some (IMAP4_error ''AUTHENTICATE failed''))]\<rparr>)"
  by (simp add: run_defs stored_A1_R1_def refreshed_A3_def generate_oauth2_string_def
        AuthenticationFailed_def isoformat_def pad2_def pad4_def digit_def)

lemma refreshed_send_run:
  "open_session Send (hotmail_world stored_A1_R1 refreshed_A2_R2) ''hotmail'' hello
     = (None,
        (hotmail_world stored_A1_R1 refreshed_A2_R2)
          \<lparr>token_file := Inr (JObj [(''access_token'', JStr ''A2''), (''refresh_token'', JStr ''R2''),
                                    (''saved_at'', JStr ''2026-02-03T14:05:09'')]),
            trace := [Connect Send False ''smtp.office365.com'' None,
                      Authenticate Send (generate_oauth2_string ''me@hotmail.com'' ''A1'' False)
                        (Some (SMTPAuthenticationError ''(535, Authentication unsuccessful)'')),
                      TokenPost (Refresh_token_grant ''client-1'' ''consumers'' (JStr ''R1''))
                        refreshed_A2_R2,
                      TokenFileWrite
                        (JObj [(''access_token'', JStr ''A2''), (''refresh_token'', JStr ''R2''),
                               (''saved_at'', JStr ''2026-02-03T14:05:09'')]),
                      Authenticate Send (generate_oauth2_string ''me@hotmail.com'' ''A2'' False) None,
                      SendMessage None]\<rparr>)"
  by (simp add: run_defs stored_A1_R1_def refreshed_A2_R2_def generate_oauth2_string_def
        isoformat_def pad2_def pad4_def digit_def)

lemma refused_send_run:
  "open_session Send (hotmail_world stored_A1_R1 invalid_grant) ''hotmail'' hello
     = (Some (failure (JStr ''Token refresh failed: Token refresh failed: invalid_grant'')),
        (hotmail_world stored_A1_R1 invalid_grant)
          \<lparr>trace := [Connect Send False ''smtp.office365.com'' None,
                      Authenticate Send (generate_oauth2_string ''me@hotmail.com'' ''A1'' False)
                        (Some (SMTPAuthenticationError ''(535, Authentication unsuccessful)'')),
                      TokenPost (Refresh_token_grant ''client-1'' ''consumers'' (JStr ''R1''))
                        invalid_grant]\<rparr>)"
  by (simp add: run_defs stored_A1_R1_def invalid_grant_def generate_oauth2_string_def)

lemma refreshed_rejected_send_run:
  "open_session Send (hotmail_world stored_A1_R1 refreshed_A3) ''hotmail'' hello
     = (Some (AuthenticationFailed ''(535, Authentication unsuccessful)''),
        (hotmail_world stored_A1_R1 refreshed_A3)
          \<lparr>token_file := Inr (JObj [(''access_token'', JStr ''A3''),
                                    (''saved_at'', JStr ''2026-02-03T14:05:09'')]),
            trace := [Connect Send False ''smtp.office365.com'' None,
                      Authenticate Send (generate_oauth2_string ''me@hotmail.com'' ''A1'' False)
                        (Some (SMTPAuthenticationError ''(535, Authentication unsuccessful)'')),
                      TokenPost (Refresh_token_grant ''client-1'' ''consumers'' (JStr ''R1''))
                        refreshed_A3,
                      TokenFileWrite
                        (JObj [(''access_token'', JStr ''A3''),
                               (''saved_at'', JStr ''2026-02-03T14:05:09'')]),
                      Authenticate Send (generate_oauth2_string ''me@hotmail.com'' ''A3'' False)
                        (Some (SMTPAuthenticationError ''(535, Authentication unsuccessful)''))]\<rparr>)"
  by (simp add: run_defs stored_A1_R1_def refreshed_A3_def generate_oauth2_string_def
        AuthenticationFailed_def isoformat_def pad2_def pad4_def digit_def)

text \<open>
  The scenario of the specification, in both roles: the token file holds \<^verbatim>\<open>A1\<close> and
  \<^verbatim>\<open>R1\<close>, the attempt with \<^verbatim>\<open>A1\<close> fails, the exchange of \<^verbatim>\<open>R1\<close> returns \<^verbatim>\<open>A2\<close> and
  \<^verbatim>\<open>R2\<close>, the attempt with \<^verbatim>\<open>A2\<close> succeeds; the token file holds \<^verbatim>\<open>A2\<close> and \<^verbatim>\<open>R2\<close>,
  and the read session opens. A second one: the exchange returns \<^verbatim>\<open>A3\<close>, which the
  server rejects as well; the run ends with that second attempt and fails, and the
  token file holds \<^verbatim>\<open>A3\<close>. A third one: the endpoint refuses the refresh token; the
  run has its one attempt.
\<close>

theorem refresh_and_retry_witness:
  "token_file (hotmail_world stored_A1_R1 refreshed_A2_R2)
     = Inr (JObj [(''access_token'', JStr ''A1''), (''refresh_token'', JStr ''R1'')])
   \<and> refresh_succeeds (hotmail_world stored_A1_R1 refreshed_A2_R2)
        [Connect Read True ''outlook.office365.com'' None,
         Authenticate Read (generate_oauth2_string ''me@hotmail.com'' ''A1'' False)
           (Some (IMAP4_error ''AUTHENTICATE failed''))]
        (JStr ''R1'') [(''access_token'', JStr ''A2''), (''refresh_token'', JStr ''R2'')] (JStr ''A2'')
   \<and> fst (open_session Read (hotmail_world stored_A1_R1 refreshed_A2_R2) ''hotmail'' hello) = None
   \<and> filter (is_attempt Read)
        (trace (snd (open_session Read (hotmail_world stored_A1_R1 refreshed_A2_R2) ''hotmail'' hello)))
      = [Authenticate Read (generate_oauth2_string ''me@hotmail.com'' ''A1'' False)
           (Some (IMAP4_error ''AUTHENTICATE failed'')),
         Authenticate Read (generate_oauth2_string ''me@hotmail.com'' ''A2'' False) None]
   \<and> token_file (snd (open_session Read (hotmail_world stored_A1_R1 refreshed_A2_R2) ''hotmail'' hello))
      = Inr (JObj [(''access_token'', JStr ''A2''), (''refresh_token'', JStr ''R2''),
                   (''saved_at'', JStr ''2026-02-03T14:05:09'')])
   \<and> filter (is_attempt Send)
        (trace (snd (open_session Send (hotmail_world stored_A1_R1 refreshed_A2_R2) ''hotmail'' hello)))
      = [Authenticate Send (generate_oauth2_string ''me@hotmail.com'' ''A1'' False)
           (Some (SMTPAuthenticationError ''(535, Authentication unsuccessful)'')),
         Authenticate Send (generate_oauth2_string ''me@hotmail.com'' ''A2'' False) None]
   \<and> token_file (snd (open_session Send (hotmail_world stored_A1_R1 refreshed_A2_R2) ''hotmail'' hello))
      = Inr (JObj [(''access_token'', JStr ''A2''), (''refresh_token'', JStr ''R2''),
                   (''saved_at'', JStr ''2026-02-03T14:05:09'')])
   \<and> fst (open_session Read (hotmail_world stored_A1_R1 refreshed_A3) ''hotmail'' hello)
      = Some (AuthenticationFailed ''AUTHENTICATE failed'')
   \<and> filter (is_attempt Read)
        (trace (snd (open_session Read (hotmail_world stored_A1_R1 refreshed_A3) ''hotmail'' hello)))
      = [Authenticate Read (generate_oauth2_string ''me@hotmail.com'' ''A1'' False)
           (Some (IMAP4_error ''AUTHENTICATE failed'')),
         Authenticate Read (generate_oauth2_string ''me@hotmail.com'' ''A3'' False)
           (Some (IMAP4_error ''AUTHENTICATE failed''))]
   \<and> token_file (snd (open_session Read (hotmail_world stored_A1_R1 refreshed_A3) ''hotmail'' hello))
      = Inr (JObj [(''access_token'', JStr ''A3''), (''saved_at'', JStr ''2026-02-03T14:05:09'')])
   \<and> fst (open_session Send (hotmail_world stored_A1_R1 refreshed_A3) ''hotmail'' hello)
      = Some (AuthenticationFailed ''(535, Authentication unsuccessful)'')
   \<and> filter (is_attempt Send)
        (trace (snd (open_session Send (hotmail_world stored_A1_R1 refreshed_A3) ''hotmail'' hello)))
      = [Authenticate Send (generate_oauth2_string ''me@hotmail.com'' ''A1'' False)
           (Some (SMTPAuthenticationError ''(535, Authentication unsuccessful)'')),
         Authenticate Send (generate_oauth2_string ''me@hotmail.com'' ''A3'' False)
           (Some (SMTPAuthenticationError ''(535, Authentication unsuccessful)''))]
   \<and> filter (is_attempt Read)
        (trace (snd (open_session Read (hotmail_world stored_A1_R1 invalid_grant) ''hotmail'' hello)))
      = [Authenticate Read (generate_oauth2_string ''me@hotmail.com'' ''A1'' False)
           (Some (IMAP4_error ''AUTHENTICATE failed''))]
   \<and> filter (is_attempt Send)
        (trace (snd (open_session Send (hotmail_world stored_A1_R1 invalid_grant) ''hotmail'' hello)))
      = [Authenticate Send (generate_oauth2_string ''me@hotmail.com'' ''A1'' False)
           (Some (SMTPAuthenticationError ''(535, Authentication unsuccessful)''))]"
proof -
  let ?kvs = "[(''access_token'', JStr ''A1''), (''refresh_token'', JStr ''R1'')]"
  let ?s1 = "generate_oauth2_string ''me@hotmail.com'' ''A1'' False"
  let ?s2 = "generate_oauth2_string ''me@hotmail.com'' ''A2'' False"
  let ?s3 = "generate_oauth2_string ''me@hotmail.com'' ''A3'' False"
  let ?er = "IMAP4_error ''AUTHENTICATE failed''"
  let ?es = "SMTPAuthenticationError ''(535, Authentication unsuccessful)''"
  let ?hr = "[Connect Read True ''outlook.office365.com'' None, Authenticate Read ?s1 (Some ?er)]"
  let ?hs = "[Connect Send False ''smtp.office365.com'' None, Authenticate Send ?s1 (Some ?es)]"
  let ?req = "Refresh_token_grant ''client-1'' ''consumers'' (JStr ''R1'')"
  let ?resp2 = "[(''access_token'', JStr ''A2''), (''refresh_token'', JStr ''R2'')]"
  let ?resp3 = "[(''access_token'', JStr ''A3'')]"
  let ?saved2 = "[(''access_token'', JStr ''A2''), (''refresh_token'', JStr ''R2''),
                  (''saved_at'', JStr ''2026-02-03T14:05:09'')]"
  let ?saved3 = "[(''access_token'', JStr ''A3''), (''saved_at'', JStr ''2026-02-03T14:05:09'')]"
  let ?W2 = "hotmail_world stored_A1_R1 refreshed_A2_R2"
  let ?W3 = "hotmail_world stored_A1_R1 refreshed_A3"
  let ?W0 = "hotmail_world stored_A1_R1 invalid_grant"
  have rt: "map_of ?kvs ''refresh_token'' = Some (JStr ''R1'')" by simp
  have aer: "auth_error Read ?er" and aes: "auth_error Send ?es" by simp_all
  have stored: "token_file (hotmail_world stored_A1_R1 response) = Inr (JObj ?kvs)" for response
    by (simp add: hotmail_world_def stored_A1_R1_def)
  have cfg: "SERVERS (hotmail_world stored_A1_R1 response) ''hotmail''
               = Some (the (SERVERS (hotmail_world stored_A1_R1 response) ''hotmail''))" for response
    by (simp add: SERVERS_def)
  have hr: "?hr = trace (hotmail_world stored_A1_R1 response)
                   @ [Connect Read (Read = Read)
                        (host Read (the (SERVERS (hotmail_world stored_A1_R1 response) ''hotmail''))) None,
                      Authenticate Read ?s1 (Some ?er)]" for response
    by (simp add: SERVERS_def host_def hotmail_world_def idle_world_def)
  have hs: "?hs = trace (hotmail_world stored_A1_R1 response)
                   @ [Connect Send (Send = Read)
                        (host Send (the (SERVERS (hotmail_world stored_A1_R1 response) ''hotmail''))) None,
                      Authenticate Send ?s1 (Some ?es)]" for response
    by (simp add: SERVERS_def host_def hotmail_world_def idle_world_def)
  have ev: "new_events (hotmail_world stored_A1_R1 response) w' = trace w'" for response w'
    by (simp add: new_events_def hotmail_world_def idle_world_def)
  have succ2: "refresh_succeeds ?W2 h (JStr ''R1'') ?resp2 (JStr ''A2'')" for h
    by (simp add: refresh_succeeds_def hotmail_world_def idle_world_def refreshed_A2_R2_def
          AZURE_CLIENT_ID_def AZURE_TENANT_ID_def environ_get_def)
  have succ3: "refresh_succeeds ?W3 h (JStr ''R1'') ?resp3 (JStr ''A3'')" for h
    by (simp add: refresh_succeeds_def hotmail_world_def idle_world_def refreshed_A3_def
          AZURE_CLIENT_ID_def AZURE_TENANT_ID_def environ_get_def)
  have fail0: "\<not> (\<exists>resp a2. refresh_succeeds ?W0 h (JStr ''R1'') resp a2)" for h
    by (simp add: refresh_succeeds_def hotmail_world_def idle_world_def invalid_grant_def)
  have stamp: "isoformat (clock (hotmail_world stored_A1_R1 response) h) = ''2026-02-03T14:05:09''"
    for response h
    by (simp add: hotmail_world_def idle_world_def isoformat_def pad2_def pad4_def digit_def)
  have answers:
    "authenticate (hotmail_world stored_A1_R1 response) h r s
       = (if s = ?s2 then None else Some (case r of Read \<Rightarrow> ?er | Send \<Rightarrow> ?es))"
    "?s2 \<noteq> ?s3" "?s3 \<noteq> ?s2"
    "fst (get_credentials (hotmail_world stored_A1_R1 response) ''hotmail'') = Some ''me@hotmail.com''"
    for response h r s
    by (simp_all add: hotmail_world_def idle_world_def generate_oauth2_string_def
          get_credentials_def SERVERS_def)
  have r2: "token_file (snd (open_session Read ?W2 ''hotmail'' hello)) = Inr (JObj ?saved2)
          \<and> fst (open_session Read ?W2 ''hotmail'' hello) = None"
  proof -
    obtain error w' where run: "open_session Read ?W2 ''hotmail'' hello = (error, w')"
      and tr: "trace w' = ?hr @ [TokenPost ?req refreshed_A2_R2, TokenFileWrite (JObj ?saved2),
                                 Authenticate Read ?s2 None]"
      using refreshed_run by simp
    have first: "filter (is_attempt Read) (new_events ?W2 w')
                   = Authenticate Read ?s1 (Some ?er) # [Authenticate Read ?s2 None]"
      by (simp add: ev tr)
    note T = refresh_and_retry [OF run stored rt first aer cfg hr, THEN conjunct2, THEN conjunct1,
               rule_format, OF succ2]
    from T have "token_file w' = Inr (JObj ?saved2)" by (simp add: stamp)
    moreover from T have "error = None" by (simp add: answers)
    ultimately show ?thesis using run by simp
  qed
  have s2: "token_file (snd (open_session Send ?W2 ''hotmail'' hello)) = Inr (JObj ?saved2)"
  proof -
    obtain error w' where run: "open_session Send ?W2 ''hotmail'' hello = (error, w')"
      and tr: "trace w' = ?hs @ [TokenPost ?req refreshed_A2_R2, TokenFileWrite (JObj ?saved2),
                                 Authenticate Send ?s2 None, SendMessage None]"
      using refreshed_send_run by simp
    have first: "filter (is_attempt Send) (new_events ?W2 w')
                   = Authenticate Send ?s1 (Some ?es) # [Authenticate Send ?s2 None]"
      by (simp add: ev tr)
    note T = refresh_and_retry [OF run stored rt first aes cfg hs, THEN conjunct2, THEN conjunct1,
               rule_format, OF succ2]
    from T have "token_file w' = Inr (JObj ?saved2)" by (simp add: stamp)
    with run show ?thesis by simp
  qed
  have r3: "token_file (snd (open_session Read ?W3 ''hotmail'' hello)) = Inr (JObj ?saved3)
          \<and> fst (open_session Read ?W3 ''hotmail'' hello) \<noteq> None"
  proof -
    obtain error w' where run: "open_session Read ?W3 ''hotmail'' hello = (error, w')"
      and tr: "trace w' = ?hr @ [TokenPost ?req refreshed_A3, TokenFileWrite (JObj ?saved3),
                                 Authenticate Read ?s3 (Some ?er)]"
      using refreshed_rejected_run by simp
    have first: "filter (is_attempt Read) (new_events ?W3 w')
                   = Authenticate Read ?s1 (Some ?er) # [Authenticate Read ?s3 (Some ?er)]"
      by (simp add: ev tr)
    note T = refresh_and_retry [OF run stored rt first aer cfg hr, THEN conjunct2, THEN conjunct1,
               rule_format, OF succ3]
    from T have "token_file w' = Inr (JObj ?saved3)" by (simp add: stamp)
    moreover from T have "error \<noteq> None" by (simp add: answers)
    ultimately show ?thesis using run by simp
  qed
  have s3: "token_file (snd (open_session Send ?W3 ''hotmail'' hello)) = Inr (JObj ?saved3)
          \<and> fst (open_session Send ?W3 ''hotmail'' hello) \<noteq> None"
  proof -
    obtain error w' where run: "open_session Send ?W3 ''hotmail'' hello = (error, w')"
      and tr: "trace w' = ?hs @ [TokenPost ?req refreshed_A3, TokenFileWrite (JObj ?saved3),
                                 Authenticate Send ?s3 (Some ?es)]"
      using refreshed_rejected_send_run by simp
    have first: "filter (is_attempt Send) (new_events ?W3 w')
                   = Authenticate Send ?s1 (Some ?es) # [Authenticate Send ?s3 (Some ?es)]"
      by (simp add: ev tr)
    note T = refresh_and_retry [OF run stored rt first aes cfg hs, THEN conjunct2, THEN conjunct1,
               rule_format, OF succ3]
    from T have "token_file w' = Inr (JObj ?saved3)" by (simp add: stamp)
    moreover from T have "error \<noteq> None" by (simp add: answers)
    ultimately show ?thesis using run by simp
  qed
  have r0: "filter (is_attempt Read) (trace (snd (open_session Read ?W0 ''hotmail'' hello)))
              = [Authenticate Read ?s1 (Some ?er)]
          \<and> fst (open_session Read ?W0 ''hotmail'' hello) \<noteq> None"
  proof -
    obtain error w' where run: "open_session Read ?W0 ''hotmail'' hello = (error, w')"
      and tr: "trace w' = ?hr @ [TokenPost ?req invalid_grant]"
      using refused_run by simp
    have first: "filter (is_attempt Read) (new_events ?W0 w') = Authenticate Read ?s1 (Some ?er) # []"
      by (simp add: ev tr)
    note T = refresh_and_retry [OF run stored rt first aer cfg hr, THEN conjunct2, THEN conjunct2,
               rule_format, OF fail0]
    from T have "error \<noteq> None" by simp
    with run first show ?thesis by (simp add: ev)
  qed
  have s0: "filter (is_attempt Send) (trace (snd (open_session Send ?W0 ''hotmail'' hello)))
              = [Authenticate Send ?s1 (Some ?es)]
          \<and> fst (open_session Send ?W0 ''hotmail'' hello) \<noteq> None"
  proof -
    obtain error w' where run: "open_session Send ?W0 ''hotmail'' hello = (error, w')"
      and tr: "trace w' = ?hs @ [TokenPost ?req invalid_grant]"
      using refused_send_run by simp
    have first: "filter (is_attempt Send) (new_events ?W0 w') = Authenticate Send ?s1 (Some ?es) # []"
      by (simp add: ev tr)
    note T = refresh_and_retry [OF run stored rt first aes cfg hs, THEN conjunct2, THEN conjunct2,
               rule_format, OF fail0]
    from T have "error \<noteq> None" by simp
    with run first show ?thesis by (simp add: ev)
  qed
  show ?thesis
    using r2 s2 r3 s3 r0 s0 stored [of refreshed_A2_R2] succ2 [of ?hr]
    by (simp add: refreshed_run refreshed_send_run refreshed_rejected_run
          refreshed_rejected_send_run)
qed

text \<open>
  C1 as stated fails: when the token endpoint refuses the refresh token, the run has
  one authentication attempt, not two, and fails.
\<close>

theorem refresh_and_retry_counterexample:
  "token_file (hotmail_world stored_A1_R1 invalid_grant)
     = Inr (JObj [(''access_token'', JStr ''A1''), (''refresh_token'', JStr ''R1'')])
   \<and> filter (is_attempt Read)
        (trace (snd (open_session Read (hotmail_world stored_A1_R1 invalid_grant) ''hotmail'' hello)))
      = [Authenticate Read (generate_oauth2_string ''me@hotmail.com'' ''A1'' False)
           (Some (IMAP4_error ''AUTHENTICATE failed''))]
   \<and> fst (open_session Read (hotmail_world stored_A1_R1 invalid_grant) ''hotmail'' hello)
      = Some (failure (JStr ''Token refresh failed: Token refresh failed: invalid_grant''))"
  by (simp add: refused_run) (simp add: hotmail_world_def stored_A1_R1_def)

end
